theory Spec2Isabelle
  imports Main "HOL-Library.Sublist" "HOL-Library.AList"
begin

section \<open>Python values and the operations build.py applies to them\<close>

text \<open>
  build.py works on the values that \<^verbatim>\<open>json.load\<close> returns: nested dicts, lists,
  strings, numbers, booleans and \<^verbatim>\<open>None\<close>.  A dict is an association list in insertion
  order, looked up with \<^const>\<open>map_of\<close>.  A Python \<^verbatim>\<open>str\<close> is a \<^typ>\<open>string\<close> holding the
  UTF-8 bytes that the writer puts into the output file, so a character outside ASCII
  is the run of its bytes.  A code point that is a surrogate on its own, which a
  \<^verbatim>\<open>\u\<close> escape can put into a Python string, is the run of three bytes that the
  same rule gives; no valid UTF-8 text holds these bytes.

  A \<^verbatim>\<open>float\<close> is finite, not a number, or one of the two infinities.  A finite
  float is given by the text that \<^verbatim>\<open>repr\<close> writes for it, which \<^verbatim>\<open>str\<close> and
  \<^verbatim>\<open>json.dumps\<close> both use; build.py never compares two numbers, so that
  \<^verbatim>\<open>0.0\<close> and \<^verbatim>\<open>-0.0\<close> are equal as numbers plays no part.
\<close>

datatype pyfloat =
  FNum string
  | FNaN
  | FInf
  | FNegInf

datatype json =
  JNull
  | JBool bool
  | JInt int
  | JFloat pyfloat
  | JStr string
  | JArr "json list"
  | JObj "(string \<times> json) list"

text \<open>
  Every way the program stops early is a value: the exceptions raised by a subscript,
  by \<^verbatim>\<open>.get\<close> on a value that is no dict, by a loop over a value that cannot be
  iterated, by hashing a list or dict, by the file system and by the JSON parser, and
  \<^verbatim>\<open>sys.exit\<close>.
\<close>

datatype error =
  KeyError string
  | TypeError
  | AttributeError
  | JSONDecodeError
  | KeyErrorRaw string
  | FileExistsError
  | NotADirectoryError
  | IsADirectoryError
  | UnicodeDecodeError
  | UnicodeEncodeError
  | SystemExit nat

definition bindE :: "error + 'a \<Rightarrow> ('a \<Rightarrow> error + 'b) \<Rightarrow> error + 'b" where
  "bindE m f = (case m of Inl e \<Rightarrow> Inl e | Inr x \<Rightarrow> f x)"

text \<open>\<^verbatim>\<open>v[key]\<close> with a string key: a dict looks the key up, every other value raises.\<close>

fun subscript :: "json \<Rightarrow> string \<Rightarrow> error + json" where
  "subscript (JObj kvs) k = (case map_of kvs k of None \<Rightarrow> Inl (KeyError k) | Some v \<Rightarrow> Inr v)"
| "subscript _ k = Inl TypeError"

text \<open>\<^verbatim>\<open>v.get(key)\<close>: only a dict has the method; an absent key is \<^verbatim>\<open>None\<close>.\<close>

fun get_opt :: "json \<Rightarrow> string \<Rightarrow> error + json option" where
  "get_opt (JObj kvs) k = Inr (map_of kvs k)"
| "get_opt _ k = Inl AttributeError"

text \<open>\<^verbatim>\<open>v.get(key, default)\<close>.\<close>

definition get_default :: "json \<Rightarrow> string \<Rightarrow> json \<Rightarrow> error + json" where
  "get_default v k d = bindE (get_opt v k) (\<lambda>r. Inr (case r of None \<Rightarrow> d | Some x \<Rightarrow> x))"

text \<open>Truth value of a Python object, as \<^verbatim>\<open>if\<close> tests it.\<close>

fun truthy :: "json \<Rightarrow> bool" where
  "truthy JNull = False"
| "truthy (JBool b) = b"
| "truthy (JInt i) = (i \<noteq> 0)"
| "truthy (JFloat f) = (f \<noteq> FNum ''0.0'' \<and> f \<noteq> FNum ''-0.0'')"
| "truthy (JStr s) = (s \<noteq> [])"
| "truthy (JArr xs) = (xs \<noteq> [])"
| "truthy (JObj kvs) = (kvs \<noteq> [])"

text \<open>Lists and dicts cannot be hashed, so they cannot be looked up in a dict.\<close>

fun hashable :: "json \<Rightarrow> bool" where
  "hashable (JArr xs) = False"
| "hashable (JObj kvs) = False"
| "hashable _ = True"

text \<open>
  \<^verbatim>\<open>mapping.get(key, default)\<close> on a dict literal whose keys are strings: a key that is
  no string equals none of them.
\<close>

definition dict_get :: "(string \<times> 'a) list \<Rightarrow> json \<Rightarrow> 'a \<Rightarrow> error + 'a" where
  "dict_get m k d =
     (if \<not> hashable k then Inl TypeError
      else case k of
        JStr s \<Rightarrow> (case map_of m s of None \<Rightarrow> Inr d | Some v \<Rightarrow> Inr v)
      | _ \<Rightarrow> Inr d)"

subsection \<open>Field formatters\<close>

definition badge_class :: "json \<Rightarrow> error + string" where
  "badge_class type_key =
     dict_get
       [(''canon'', ''badge--canon''),
        (''mixed'', ''badge--mixed''),
        (''film_canon'', ''badge--film-canon''),
        (''non_canon'', ''badge--non-canon''),
        (''filler'', ''badge--filler'')]
       type_key ''badge--canon''"

definition verdict_class :: "json \<Rightarrow> error + string" where
  "verdict_class verdict =
     dict_get
       [(''must_watch'', ''verdict--must-watch''),
        (''watchable'', ''verdict--watchable''),
        (''skip'', ''verdict--skip'')]
       verdict ''verdict--watchable''"

definition verdict_label :: "json \<Rightarrow> json \<Rightarrow> error + json" where
  "verdict_label verdict ui =
     bindE (subscript ui ''must_watch'') (\<lambda>l1.
     bindE (subscript ui ''watchable'') (\<lambda>l2.
     bindE (subscript ui ''skip'') (\<lambda>l3.
       dict_get [(''must_watch'', l1), (''watchable'', l2), (''skip'', l3)] verdict verdict)))"

definition type_label :: "json \<Rightarrow> json \<Rightarrow> error + json" where
  "type_label type_key ui =
     bindE (subscript ui ''canon'') (\<lambda>l1.
     bindE (subscript ui ''mixed'') (\<lambda>l2.
     bindE (subscript ui ''film_canon'') (\<lambda>l3.
     bindE (subscript ui ''non_canon'') (\<lambda>l4.
     bindE (get_default ui ''filler'' (JStr ''Filler'')) (\<lambda>l5.
       dict_get
         [(''canon'', l1), (''mixed'', l2), (''film_canon'', l3), (''non_canon'', l4),
          (''filler'', l5)]
         type_key type_key)))))"

section \<open>Strings, formatting and f-strings\<close>

text \<open>\<^verbatim>\<open>str(n)\<close> for an integer: its decimal digits, with a sign when negative.\<close>

definition digit_char :: "nat \<Rightarrow> char" where
  "digit_char d = char_of (48 + d)"

function digits :: "nat \<Rightarrow> string" where
  "digits n = (if n < 10 then [digit_char n] else digits (n div 10) @ [digit_char (n mod 10)])"
  by pat_completeness auto
termination
  by (relation "measure id") auto

declare digits.simps [simp del]

definition str_int :: "int \<Rightarrow> string" where
  "str_int i = (if i < 0 then CHR ''-'' # digits (nat (- i)) else digits (nat i))"

text \<open>\<^verbatim>\<open>str\<close> of a float.\<close>

fun float_str :: "pyfloat \<Rightarrow> string" where
  "float_str (FNum t) = t"
| "float_str FNaN = ''nan''"
| "float_str FInf = ''inf''"
| "float_str FNegInf = ''-inf''"

text \<open>
  What an f-string puts for \<^verbatim>\<open>{v}\<close>: \<^verbatim>\<open>str(v)\<close>.  For a list or a dict that is
  Python's \<^verbatim>\<open>repr\<close>, which is no code of build.py: it is the parameter \<open>R\<close>.
\<close>

fun py_str :: "(json \<Rightarrow> string) \<Rightarrow> json \<Rightarrow> string" where
  "py_str R JNull = ''None''"
| "py_str R (JBool b) = (if b then ''True'' else ''False'')"
| "py_str R (JInt i) = str_int i"
| "py_str R (JFloat f) = float_str f"
| "py_str R (JStr s) = s"
| "py_str R v = R v"

definition fmt :: "(json \<Rightarrow> string) \<Rightarrow> error + json \<Rightarrow> error + string" where
  "fmt R m = bindE m (\<lambda>v. Inr (py_str R v))"

text \<open>
  An f-string is the list of its pieces, literal text and formatted expressions, in
  source order.  Python evaluates the expressions from left to right, so the first
  one that raises decides the error.
\<close>

fun fstring :: "(error + string) list \<Rightarrow> error + string" where
  "fstring [] = Inr []"
| "fstring (Inl e # ms) = Inl e"
| "fstring (Inr s # ms) = bindE (fstring ms) (\<lambda>t. Inr (s @ t))"

text \<open>A loop that builds a list, stopping at the first iteration that raises.\<close>

fun mapE :: "('a \<Rightarrow> error + 'b) \<Rightarrow> 'a list \<Rightarrow> error + 'b list" where
  "mapE f [] = Inr []"
| "mapE f (x # xs) = bindE (f x) (\<lambda>y. bindE (mapE f xs) (\<lambda>ys. Inr (y # ys)))"

text \<open>\<^verbatim>\<open>sep.join(parts)\<close>.\<close>

fun join :: "string \<Rightarrow> string list \<Rightarrow> string" where
  "join sep [] = []"
| "join sep [x] = x"
| "join sep (x # y # ys) = x @ sep @ join sep (y # ys)"

text \<open>
  The characters of a string, as a loop over it sees them: every byte that is not a
  UTF-8 continuation byte starts a new character.
\<close>

definition is_cont :: "char \<Rightarrow> bool" where
  "is_cont c = ((128::nat) \<le> of_char c \<and> (of_char c :: nat) < 192)"

function utf8_chars :: "string \<Rightarrow> string list" where
  "utf8_chars [] = []"
| "utf8_chars (c # cs) = (c # takeWhile is_cont cs) # utf8_chars (dropWhile is_cont cs)"
  by pat_completeness auto
termination
  by (relation "measure length") (auto simp: length_dropWhile_le less_Suc_eq_le)

text \<open>
  \<^verbatim>\<open>for x in v\<close>: a list gives its elements, a dict its keys, a string its
  characters; nothing else can be iterated.
\<close>

fun py_iter :: "json \<Rightarrow> error + json list" where
  "py_iter (JArr xs) = Inr xs"
| "py_iter (JObj kvs) = Inr (map (\<lambda>kv. JStr (fst kv)) kvs)"
| "py_iter (JStr s) = Inr (map JStr (utf8_chars s))"
| "py_iter _ = Inl TypeError"

text \<open>The value of \<^verbatim>\<open>item.get("recommended")\<close> as a condition.\<close>

definition truthy_opt :: "json option \<Rightarrow> bool" where
  "truthy_opt r = (case r of None \<Rightarrow> False | Some v \<Rightarrow> truthy v)"

section \<open>Fragment renderers\<close>

subsection \<open>Timeline rows\<close>

text \<open>The f-string of one row, over the loop's local variables.\<close>

definition timeline_row_template ::
  \<open>(json \<Rightarrow> string) \<Rightarrow> json \<Rightarrow> json \<Rightarrow> string \<Rightarrow> string \<Rightarrow> json \<Rightarrow> error + string\<close> where
  \<open>timeline_row_template R ui item rec_tag rec_class watch_url =
     fstring
      [Inr ''        <tr'',
       Inr rec_class,
       Inr ''>\<newline>'',
       Inr ''          <td class="col-num">'',
       fmt R (subscript item ''num''),
       Inr ''</td>\<newline>'',
       Inr ''          <td class="col-title">'',
       fmt R (subscript item ''title''),
       Inr rec_tag,
       Inr ''<small>'',
       fmt R (subscript item ''subtitle''),
       Inr ''</small></td>\<newline>'',
       Inr ''          <td><span class="badge '',
       bindE (subscript item ''type'') badge_class,
       Inr ''">'',
       fmt R (bindE (subscript item ''type'') (\<lambda>t. type_label t ui)),
       Inr ''</span></td>\<newline>'',
       Inr ''          <td>'',
       fmt R (subscript item ''episodes''),
       Inr ''</td>\<newline>'',
       Inr ''          <td>'',
       fmt R (subscript item ''when''),
       Inr ''</td>\<newline>'',
       Inr ''          <td>'',
       fmt R (subscript item ''path''),
       Inr ''</td>\<newline>'',
       Inr ''          <td><span class="verdict '',
       bindE (subscript item ''verdict'') verdict_class,
       Inr ''">'',
       fmt R (bindE (subscript item ''verdict'') (\<lambda>v. verdict_label v ui)),
       Inr ''</span></td>\<newline>'',
       Inr ''          <td><a href="'',
       Inr (py_str R watch_url),
       Inr ''" class="stream-link" rel="nofollow noopener" target="_blank">CR</a></td>\<newline>'',
       Inr ''        </tr>'']\<close>

text \<open>The body of the loop over the timeline.\<close>

definition timeline_row :: \<open>(json \<Rightarrow> string) \<Rightarrow> json \<Rightarrow> json \<Rightarrow> error + string\<close> where
  \<open>timeline_row R ui item =
     bindE (get_opt item ''recommended'') (\<lambda>recommended.
     bindE (if truthy_opt recommended
            then bindE (fstring
                   [Inr '' <span class="tag-recommended">'',
                    fmt R (subscript ui ''recommended_label''),
                    Inr ''</span>''])
                 (\<lambda>tag. Inr (tag, '' class="row--recommended"''))
            else Inr ([], [])) (\<lambda>(rec_tag, rec_class).
     bindE (get_default item ''watch_url'' (JStr ''#'')) (\<lambda>watch_url.
     timeline_row_template R ui item rec_tag rec_class watch_url)))\<close>

definition build_timeline_rows :: "(json \<Rightarrow> string) \<Rightarrow> json \<Rightarrow> json \<Rightarrow> error + string" where
  "build_timeline_rows R data ui =
     bindE (subscript data ''timeline'') (\<lambda>timeline.
     bindE (py_iter timeline) (\<lambda>items.
     bindE (mapE (timeline_row R ui) items) (\<lambda>rows.
     Inr (join ''\<newline>'' rows))))"

subsection \<open>Streaming cards\<close>

definition streaming_card :: \<open>(json \<Rightarrow> string) \<Rightarrow> nat \<times> json \<Rightarrow> error + string\<close> where
  \<open>streaming_card R = (\<lambda>(i, s).
     bindE (subscript s ''available'') (\<lambda>available.
     bindE (py_iter available) (\<lambda>items.
     let available_items =
           join ''\<newline>'' (map (\<lambda>item. ''            <li>'' @ py_str R item @ ''</li>'') items);
         cta_class = (if i = 0 then ''streaming-card__cta--primary'' else [])
     in fstring
      [Inr ''      <div class="streaming-card">\<newline>'',
       Inr ''        <span class="streaming-card__icon">'',
       fmt R (subscript s ''icon''),
       Inr ''</span>\<newline>'',
       Inr ''        <div class="streaming-card__name">'',
       fmt R (subscript s ''platform''),
       Inr ''</div>\<newline>'',
       Inr ''        <ul class="streaming-card__list">\<newline>'',
       Inr available_items,
       Inr ''\<newline>'',
       Inr ''        </ul>\<newline>'',
       Inr ''        <a href="'',
       fmt R (subscript s ''url''),
       Inr ''" class="streaming-card__cta '',
       Inr cta_class,
       Inr ''" target="_blank" rel="noopener noreferrer nofollow">'',
       fmt R (subscript s ''cta''),
       Inr ''</a>\<newline>'',
       Inr ''      </div>''])))\<close>

definition build_streaming_html :: "(json \<Rightarrow> string) \<Rightarrow> json \<Rightarrow> json \<Rightarrow> error + string" where
  "build_streaming_html R data ui =
     bindE (subscript data ''streaming'') (\<lambda>streaming.
     bindE (py_iter streaming) (\<lambda>platforms.
     bindE (mapE (streaming_card R) (enumerate 0 platforms)) (\<lambda>cards.
     Inr (join ''\<newline>'' cards))))"

section \<open>Sitemap builder\<close>

definition SITE_URL :: string where
  "SITE_URL = ''https://animewatchorder.com''"

record sitemap_url =
  loc_en :: string
  loc_fr :: string

text \<open>The URL pairs: the homepage first, then one pair per series slug.\<close>

definition sitemap_urls :: "string list \<Rightarrow> sitemap_url list" where
  "sitemap_urls series_slugs =
     \<lparr>loc_en = SITE_URL @ ''/'', loc_fr = SITE_URL @ ''/fr/''\<rparr> #
     map (\<lambda>slug. \<lparr>loc_en = SITE_URL @ ''/'' @ slug @ ''/'',
                  loc_fr = SITE_URL @ ''/fr/'' @ slug @ ''/''\<rparr>) series_slugs"

definition sitemap_entry :: \<open>sitemap_url \<Rightarrow> string\<close> where
  \<open>sitemap_entry url = concat
    [''  <url>\<newline>'',
     ''    <loc>'',
     loc_en url,
     ''</loc>\<newline>'',
     ''    <xhtml:link rel="alternate" hreflang="en" href="'',
     loc_en url,
     ''"/>\<newline>'',
     ''    <xhtml:link rel="alternate" hreflang="fr" href="'',
     loc_fr url,
     ''"/>\<newline>'',
     ''    <xhtml:link rel="alternate" hreflang="x-default" href="'',
     loc_en url,
     ''"/>\<newline>'',
     ''    <lastmod>2026-02-12</lastmod>\<newline>'',
     ''    <changefreq>monthly</changefreq>\<newline>'',
     ''    <priority>1.0</priority>\<newline>'',
     ''  </url>\<newline>'',
     ''  <url>\<newline>'',
     ''    <loc>'',
     loc_fr url,
     ''</loc>\<newline>'',
     ''    <xhtml:link rel="alternate" hreflang="en" href="'',
     loc_en url,
     ''"/>\<newline>'',
     ''    <xhtml:link rel="alternate" hreflang="fr" href="'',
     loc_fr url,
     ''"/>\<newline>'',
     ''    <xhtml:link rel="alternate" hreflang="x-default" href="'',
     loc_en url,
     ''"/>\<newline>'',
     ''    <lastmod>2026-02-12</lastmod>\<newline>'',
     ''    <changefreq>monthly</changefreq>\<newline>'',
     ''    <priority>0.9</priority>\<newline>'',
     ''  </url>'']\<close>

definition generate_sitemap :: \<open>string list \<Rightarrow> string\<close> where
  \<open>generate_sitemap series_slugs =
     (let urls = sitemap_urls series_slugs;
          entries = map sitemap_entry urls
      in ''<?xml version="1.0" encoding="UTF-8"?>\<newline>'' @
         ''<urlset xmlns="http://www.sitemaps.org/schemas/sitemap/0.9"\<newline>'' @
         ''        xmlns:xhtml="http://www.w3.org/1999/xhtml">\<newline>'' @
         join ''\<newline>'' entries @
         ''\<newline>'' @
         ''</urlset>'')\<close>

section \<open>JSON text, as \<^verbatim>\<open>json.dumps(v, indent=2, ensure_ascii=False)\<close> writes it\<close>

definition hex_digit :: "nat \<Rightarrow> char" where
  "hex_digit d = ''0123456789abcdef'' ! d"

text \<open>
  Inside a string the quote, the backslash and the control characters are escaped;
  every other character is written as it is.
\<close>

definition escape_char :: "char \<Rightarrow> string" where
  "escape_char c =
     (if c = CHR 0x22 then [CHR 0x5C, CHR 0x22]
      else if c = CHR 0x5C then [CHR 0x5C, CHR 0x5C]
      else if c = CHR 0x0A then [CHR 0x5C, CHR ''n'']
      else if c = CHR 0x0D then [CHR 0x5C, CHR ''r'']
      else if c = CHR 0x09 then [CHR 0x5C, CHR ''t'']
      else if c = CHR 0x08 then [CHR 0x5C, CHR ''b'']
      else if c = CHR 0x0C then [CHR 0x5C, CHR ''f'']
      else if (of_char c :: nat) < 32
        then [CHR 0x5C, CHR ''u'', CHR ''0'', CHR ''0'',
              hex_digit (of_char c div 16), hex_digit (of_char c mod 16)]
      else [c])"

definition json_string :: "string \<Rightarrow> string" where
  "json_string s = CHR 0x22 # concat (map escape_char s) @ [CHR 0x22]"

text \<open>A line break followed by the indentation of a nesting level.\<close>

definition nl :: "nat \<Rightarrow> string" where
  "nl n = CHR 0x0A # replicate (2 * n) (CHR '' '')"

text \<open>
  A float is written by \<^verbatim>\<open>repr\<close>; the three that are not finite are written as
  \<^verbatim>\<open>NaN\<close>, \<^verbatim>\<open>Infinity\<close> and \<^verbatim>\<open>-Infinity\<close>, which the JSON grammar does not have.
\<close>

fun float_json :: "pyfloat \<Rightarrow> string" where
  "float_json (FNum t) = t"
| "float_json FNaN = ''NaN''"
| "float_json FInf = ''Infinity''"
| "float_json FNegInf = ''-Infinity''"

fun json_dumps_at :: "nat \<Rightarrow> json \<Rightarrow> string" where
  "json_dumps_at n JNull = ''null''"
| "json_dumps_at n (JBool b) = (if b then ''true'' else ''false'')"
| "json_dumps_at n (JInt i) = str_int i"
| "json_dumps_at n (JFloat f) = float_json f"
| "json_dumps_at n (JStr s) = json_string s"
| "json_dumps_at n (JArr xs) =
     (if xs = [] then ''[]''
      else ''['' @ nl (Suc n) @
           join ('','' @ nl (Suc n)) (map (json_dumps_at (Suc n)) xs) @
           nl n @ '']'')"
| "json_dumps_at n (JObj kvs) =
     (if kvs = [] then ''{}''
      else ''{'' @ nl (Suc n) @
           join ('','' @ nl (Suc n))
             (map (\<lambda>kv. json_string (fst kv) @ '': '' @ json_dumps_at (Suc n) (snd kv)) kvs) @
           nl n @ ''}'')"

definition json_dumps :: "json \<Rightarrow> string" where
  "json_dumps v = json_dumps_at 0 v"

section \<open>The other fragment renderers\<close>

definition build_why_confusing_html :: \<open>(json \<Rightarrow> string) \<Rightarrow> json \<Rightarrow> json \<Rightarrow> error + string\<close> where
  \<open>build_why_confusing_html R data ui =
     bindE (subscript data ''why_confusing'') (\<lambda>wc.
     fstring
      [Inr ''      <div class="info-box">\<newline>'',
       Inr ''        <div class="info-box__label">'',
       fmt R (subscript ui ''why_confusing_label''),
       Inr ''</div>\<newline>'',
       Inr ''        <div class="info-box__text">'',
       fmt R (subscript wc ''content''),
       Inr ''</div>\<newline>'',
       Inr ''      </div>''])\<close>

definition path_card :: \<open>(json \<Rightarrow> string) \<Rightarrow> json \<Rightarrow> json \<Rightarrow> error + string\<close> where
  \<open>path_card R ui path =
     bindE (get_opt path ''recommended'') (\<lambda>recommended.
     bindE (if truthy_opt recommended
            then bindE (fstring
                   [Inr ''<span class="path-card__badge">'',
                     fmt R (subscript ui ''recommended_label''),
                     Inr ''</span>''])
                 (\<lambda>badge. Inr (badge, '' path-card--recommended''))
            else Inr ([], [])) (\<lambda>(rec_badge, rec_class).
     fstring
      [Inr ''      <div class="path-card'',
       Inr rec_class,
       Inr ''">\<newline>'',
       Inr ''        '',
       Inr rec_badge,
       Inr ''\<newline>'',
       Inr ''        <span class="path-card__icon">'',
       fmt R (subscript path ''icon''),
       Inr ''</span>\<newline>'',
       Inr ''        <div class="path-card__name">'',
       fmt R (subscript path ''name''),
       Inr ''</div>\<newline>'',
       Inr ''        <div class="path-card__subtitle">'',
       fmt R (subscript path ''subtitle''),
       Inr ''</div>\<newline>'',
       Inr ''        <p class="path-card__desc">'',
       fmt R (subscript path ''description''),
       Inr ''</p>\<newline>'',
       Inr ''        <div class="path-card__meta">\<newline>'',
       Inr ''          <span class="path-card__hours">'',
       fmt R (subscript path ''hours''),
       Inr ''</span>\<newline>'',
       Inr ''          '',
       fmt R (subscript path ''includes''),
       Inr ''\<newline>'',
       Inr ''        </div>\<newline>'',
       Inr ''      </div>'']))\<close>

definition build_paths_html :: "(json \<Rightarrow> string) \<Rightarrow> json \<Rightarrow> json \<Rightarrow> error + string" where
  "build_paths_html R data ui =
     bindE (subscript data ''paths'') (\<lambda>paths.
     bindE (py_iter paths) (\<lambda>items.
     bindE (mapE (path_card R ui) items) (\<lambda>cards.
     Inr (join ''\<newline>'' cards))))"

definition faq_item :: \<open>(json \<Rightarrow> string) \<Rightarrow> json \<Rightarrow> error + string\<close> where
  \<open>faq_item R faq =
     fstring
      [Inr ''      <div class="faq-item">\<newline>'',
       Inr ''        <h3>'',
       fmt R (subscript faq ''question''),
       Inr ''</h3>\<newline>'',
       Inr ''        <p>'',
       fmt R (subscript faq ''answer''),
       Inr ''</p>\<newline>'',
       Inr ''      </div>'']\<close>

definition build_faq_html :: "(json \<Rightarrow> string) \<Rightarrow> json \<Rightarrow> error + string" where
  "build_faq_html R data =
     bindE (subscript data ''faq'') (\<lambda>faqs.
     bindE (py_iter faqs) (\<lambda>entries.
     bindE (mapE (faq_item R) entries) (\<lambda>items.
     Inr (join ''\<newline>'' items))))"

definition compare_stat :: \<open>(json \<Rightarrow> string) \<Rightarrow> json \<Rightarrow> error + string\<close> where
  \<open>compare_stat R stat =
     fstring
      [Inr ''          <div class="compare-card__stat">\<newline>'',
       Inr ''            <span class="compare-card__label">'',
       fmt R (subscript stat ''label''),
       Inr ''</span>\<newline>'',
       Inr ''            <span class="compare-card__value">'',
       fmt R (subscript stat ''value''),
       Inr ''</span>\<newline>'',
       Inr ''          </div>\<newline>'']\<close>

definition compare_card :: \<open>(json \<Rightarrow> string) \<Rightarrow> json \<Rightarrow> json \<Rightarrow> error + string\<close> where
  \<open>compare_card R ui card' =
     bindE (get_opt card' ''recommended'') (\<lambda>recommended.
     bindE (if truthy_opt recommended
            then fstring
                   [Inr ''<span class="winner-tag">'',
                     fmt R (subscript ui ''recommended_label''),
                     Inr ''</span>'']
            else Inr []) (\<lambda>rec_badge.
     bindE (subscript card' ''stats'') (\<lambda>stats.
     bindE (py_iter stats) (\<lambda>stat_items.
     bindE (mapE (compare_stat R) stat_items) (\<lambda>stat_parts.
     let stats_html = concat stat_parts
     in fstring
      [Inr ''      <div class="compare-card '',
       fmt R (get_default card' ''color_class'' (JStr [])),
       Inr ''">\<newline>'',
       Inr ''        '',
       Inr rec_badge,
       Inr ''\<newline>'',
       Inr ''        <div class="compare-card__title">'',
       fmt R (subscript card' ''title''),
       Inr ''</div>\<newline>'',
       Inr ''        <div class="compare-card__subtitle">'',
       fmt R (subscript card' ''subtitle''),
       Inr ''</div>\<newline>'',
       Inr stats_html,
       Inr ''      </div>''])))))\<close>

definition build_compare_html :: \<open>(json \<Rightarrow> string) \<Rightarrow> json \<Rightarrow> json \<Rightarrow> error + string\<close> where
  \<open>build_compare_html R data ui =
     bindE (subscript data ''dbz_vs_kai'') (\<lambda>compare.
     bindE (subscript compare ''cards'') (\<lambda>card_list.
     bindE (py_iter card_list) (\<lambda>card_items.
     bindE (mapE (compare_card R ui) card_items) (\<lambda>cards.
     bindE (fstring
      [Inr ''      <div class="compare-grid">\<newline>'',
       Inr (join ''\<newline>'' cards),
       Inr ''\<newline>'',
       Inr ''      </div>'']) (\<lambda>grid.
     bindE (fstring
      [Inr ''      <div class="verdict-box">\<newline>'',
       Inr ''        <div class="verdict-box__label">'',
       fmt R (get_default ui ''compare_verdict_label'' (JStr ''Our Verdict'')),
       Inr ''</div>\<newline>'',
       Inr ''        <p class="verdict-box__text">'',
       fmt R (subscript compare ''verdict''),
       Inr ''</p>\<newline>'',
       Inr ''      </div>'']) (\<lambda>verdict.
     Inr (grid @ ''\<newline>'' @ verdict)))))))\<close>

subsection \<open>Structured data\<close>

definition howto_step :: "json \<Rightarrow> error + json" where
  "howto_step item =
     bindE (subscript item ''title'') (\<lambda>title.
     bindE (get_default item ''notes'' (JStr [])) (\<lambda>notes.
     Inr (JObj [(''@type'', JStr ''HowToStep''), (''name'', title), (''text'', notes)])))"

definition howto_schema_of :: "(json \<Rightarrow> string) \<Rightarrow> json \<Rightarrow> string \<Rightarrow> string \<Rightarrow> error + json" where
  "howto_schema_of R data slug lang =
     (let url = (if lang = ''en'' then SITE_URL @ ''/'' @ slug @ ''/''
                 else SITE_URL @ ''/fr/'' @ slug @ ''/'')
      in bindE (fmt R (subscript data ''title'')) (\<lambda>title.
         bindE (subscript data ''meta_description'') (\<lambda>description.
         bindE (subscript data ''timeline'') (\<lambda>timeline.
         bindE (py_iter timeline) (\<lambda>items.
         bindE (mapE howto_step items) (\<lambda>steps.
         Inr (JObj
           [(''@context'', JStr ''https://schema.org''),
            (''@type'', JStr ''HowTo''),
            (''name'', JStr (if lang = ''en'' then title @ '' Watch Order Guide''
                             else title @ '' '' @ (''Guide d'' @ [CHR 0x27] @ ''Ordre de Visionnage''))),
            (''description'', description),
            (''url'', JStr url),
            (''datePublished'', JStr ''2026-02-12''),
            (''dateModified'', JStr ''2026-02-12''),
            (''step'', JArr steps)])))))))"

definition build_schema_json :: "(json \<Rightarrow> string) \<Rightarrow> json \<Rightarrow> string \<Rightarrow> string \<Rightarrow> error + string" where
  "build_schema_json R data slug lang =
     bindE (howto_schema_of R data slug lang) (\<lambda>schema. Inr (json_dumps schema))"

definition faq_entity :: "json \<Rightarrow> error + json" where
  "faq_entity faq =
     bindE (subscript faq ''question'') (\<lambda>question.
     bindE (subscript faq ''answer'') (\<lambda>answer.
     Inr (JObj
       [(''@type'', JStr ''Question''),
        (''name'', question),
        (''acceptedAnswer'', JObj [(''@type'', JStr ''Answer''), (''text'', answer)])])))"

definition faq_schema_of :: "json \<Rightarrow> error + json" where
  "faq_schema_of data =
     bindE (subscript data ''faq'') (\<lambda>faqs.
     bindE (py_iter faqs) (\<lambda>entries.
     bindE (mapE faq_entity entries) (\<lambda>entities.
     Inr (JObj
       [(''@context'', JStr ''https://schema.org''),
        (''@type'', JStr ''FAQPage''),
        (''mainEntity'', JArr entities)]))))"

definition build_faq_schema :: "json \<Rightarrow> error + string" where
  "build_faq_schema data = bindE (faq_schema_of data) (\<lambda>schema. Inr (json_dumps schema))"

section \<open>Page assemblers\<close>

definition GTM_HEAD :: string where
  \<open>GTM_HEAD = concat
    [''<!-- Google Tag Manager -->\<newline>'',
     ''<script>(function(w,d,s,l,i){w[l]=w[l]||[];w[l].push({'',
     [CHR 0x27],
     ''gtm.start'',
     [CHR 0x27],
     '':\<newline>'',
     ''new Date().getTime(),event:'',
     [CHR 0x27],
     ''gtm.js'',
     [CHR 0x27],
     ''});var f=d.getElementsByTagName(s)[0],\<newline>'',
     ''j=d.createElement(s),dl=l!='',
     [CHR 0x27],
     ''dataLayer'',
     [CHR 0x27],
     ''?'',
     [CHR 0x27],
     ''&l='',
     [CHR 0x27],
     ''+l:'',
     [CHR 0x27, CHR 0x27],
     '';j.async=true;j.src=\<newline>'',
     [CHR 0x27],
     ''https://www.googletagmanager.com/gtm.js?id='',
     [CHR 0x27],
     ''+i+dl;f.parentNode.insertBefore(j,f);\<newline>'',
     ''})(window,document,'',
     [CHR 0x27],
     ''script'',
     [CHR 0x27],
     '','',
     [CHR 0x27],
     ''dataLayer'',
     [CHR 0x27],
     '','',
     [CHR 0x27],
     ''GTM-TJ84SLJX'',
     [CHR 0x27],
     '');</script>\<newline>'',
     ''<!-- End Google Tag Manager -->'']\<close>

definition GOOGLE_SITE_VERIFICATION :: string where
  \<open>GOOGLE_SITE_VERIFICATION =
     ''<meta name="google-site-verification" content="NC4herujRe5TMX77VnhqjvWdJa6XAwBd5iAVIGxwXbk" />''\<close>

definition generate_series_page ::
  \<open>(json \<Rightarrow> string) \<Rightarrow> string \<Rightarrow> json \<Rightarrow> string \<Rightarrow> error + string\<close> where
  \<open>generate_series_page R slug data lang =
     bindE (subscript data ''ui'') (\<lambda>ui.
     let lang_prefix = (if lang = ''fr'' then ''/fr'' else []);
         other_lang = (if lang = ''en'' then ''fr'' else ''en'');
         other_prefix = (if other_lang = ''fr'' then ''/fr'' else []);
         home_url = lang_prefix @ ''/'';
         lang_switch_url = other_prefix @ ''/'' @ slug @ ''/''
     in
     bindE (build_why_confusing_html R data ui) (\<lambda>why_confusing_html.
     bindE (build_paths_html R data ui) (\<lambda>paths_html.
     bindE (build_compare_html R data ui) (\<lambda>compare_html.
     bindE (build_timeline_rows R data ui) (\<lambda>timeline_rows.
     bindE (build_faq_html R data) (\<lambda>faq_html.
     bindE (build_streaming_html R data ui) (\<lambda>streaming_html.
     bindE (build_schema_json R data slug lang) (\<lambda>howto_schema.
     bindE (build_faq_schema data) (\<lambda>faq_schema.
     let canonical = (if lang = ''en'' then SITE_URL @ ''/'' @ slug @ ''/''
                      else SITE_URL @ ''/fr/'' @ slug @ ''/'');
         en_url = SITE_URL @ ''/'' @ slug @ ''/'';
         fr_url = SITE_URL @ ''/fr/'' @ slug @ ''/''
     in fstring
      [Inr ''<!DOCTYPE html>\<newline>'',
       Inr ''<html lang="'',
       Inr lang,
       Inr ''">\<newline>'',
       Inr ''<head>\<newline>'',
       Inr ''  <meta charset="UTF-8">\<newline>'',
       Inr ''  '',
       Inr GTM_HEAD,
       Inr ''\<newline>'',
       Inr ''  <meta name="viewport" content="width=device-width, initial-scale=1.0">\<newline>'',
       Inr ''  <title>'',
       fmt R (subscript data ''meta_title''),
       Inr ''</title>\<newline>'',
       Inr ''  <meta name="description" content="'',
       fmt R (subscript data ''meta_description''),
       Inr ''">\<newline>'',
       Inr ''  <link rel="canonical" href="'',
       Inr canonical,
       Inr ''">\<newline>'',
       Inr ''  <link rel="alternate" hreflang="en" href="'',
       Inr en_url,
       Inr ''">\<newline>'',
       Inr ''  <link rel="alternate" hreflang="fr" href="'',
       Inr fr_url,
       Inr ''">\<newline>'',
       Inr ''  <link rel="alternate" hreflang="x-default" href="'',
       Inr en_url,
       Inr ''">\<newline>'',
       Inr ''  <link rel="preconnect" href="https://fonts.googleapis.com">\<newline>'',
       Inr ''  <link rel="preconnect" href="https://fonts.gstatic.com" crossorigin>\<newline>'',
       Inr ''  <link href="https://fonts.googleapis.com/css2?family=Bebas+Neue&family=Outfit:wght@400;500;600;700&display=swap" rel="stylesheet">\<newline>'',
       Inr ''  <link rel="stylesheet" href="/assets/css/style.css">\<newline>'',
       Inr ''  <script type="application/ld+json">\<newline>'',
       Inr howto_schema,
       Inr ''\<newline>'',
       Inr ''  </script>\<newline>'',
       Inr ''  <script type="application/ld+json">\<newline>'',
       Inr faq_schema,
       Inr ''\<newline>'',
       Inr ''  </script>\<newline>'',
       Inr ''</head>\<newline>'',
       Inr ''<body>\<newline>'',
       Inr ''  <!-- Navigation -->\<newline>'',
       Inr ''  <nav class="nav" aria-label="Main navigation">\<newline>'',
       Inr ''    <div class="container nav__inner">\<newline>'',
       Inr ''      <a href="'',
       Inr home_url,
       Inr ''" class="nav__logo">Anime<span>Watch</span>Order</a>\<newline>'',
       Inr ''      <ul class="nav__links">\<newline>'',
       Inr ''        <li><a href="'',
       Inr home_url,
       Inr ''">'',
       fmt R (subscript ui ''nav_home''),
       Inr ''</a></li>\<newline>'',
       Inr ''        <li><a href="'',
       Inr lang_switch_url,
       Inr ''" class="nav__lang">'',
       fmt R (subscript ui ''lang_switch''),
       Inr ''</a></li>\<newline>'',
       Inr ''      </ul>\<newline>'',
       Inr ''    </div>\<newline>'',
       Inr ''  </nav>\<newline>'',
       Inr ''\<newline>'',
       Inr ''  <main class="container">\<newline>'',
       Inr ''    <!-- 1. Hero Section -->\<newline>'',
       Inr ''    <section class="hero" id="hero">\<newline>'',
       Inr ''      <span class="hero__tag">'',
       fmt R (subscript data ''category_tag''),
       Inr ''</span>\<newline>'',
       Inr ''      <h1>'',
       fmt R (subscript data ''title''),
       Inr '' '',
       Inr (if lang = ''en'' then ''Watch Order'' else ''Ordre de Visionnage''),
       Inr ''</h1>\<newline>'',
       Inr ''      <div class="hero__meta">\<newline>'',
       Inr ''        <div class="hero__meta-item">\<newline>'',
       Inr ''          <span class="hero__meta-value">'',
       fmt R (bindE (subscript data ''hero'') (\<lambda>d. subscript d ''series'')),
       Inr ''</span>\<newline>'',
       Inr ''          <span class="hero__meta-label">'',
       Inr (if lang = ''en'' then ''Series'' else (''S'' @ [CHR 0xC3, CHR 0xA9] @ ''ries'')),
       Inr ''</span>\<newline>'',
       Inr ''        </div>\<newline>'',
       Inr ''        <div class="hero__meta-item">\<newline>'',
       Inr ''          <span class="hero__meta-value">'',
       fmt R (bindE (subscript data ''hero'') (\<lambda>d. subscript d ''films'')),
       Inr ''</span>\<newline>'',
       Inr ''          <span class="hero__meta-label">Films</span>\<newline>'',
       Inr ''        </div>\<newline>'',
       Inr ''        <div class="hero__meta-item">\<newline>'',
       Inr ''          <span class="hero__meta-value">'',
       fmt R (bindE (subscript data ''hero'') (\<lambda>d. subscript d ''hours'')),
       Inr ''+</span>\<newline>'',
       Inr ''          <span class="hero__meta-label">'',
       Inr (if lang = ''en'' then ''Hours'' else ''Heures''),
       Inr ''</span>\<newline>'',
       Inr ''        </div>\<newline>'',
       Inr ''        <div class="hero__meta-item">\<newline>'',
       Inr ''          <span class="hero__meta-value">'',
       fmt R (bindE (subscript data ''hero'') (\<lambda>d. subscript d ''updated'')),
       Inr ''</span>\<newline>'',
       Inr ''          <span class="hero__meta-label">'',
       Inr (if lang = ''en'' then ''Updated'' else (''Mis '' @ [CHR 0xC3, CHR 0xA0] @ '' jour'')),
       Inr ''</span>\<newline>'',
       Inr ''        </div>\<newline>'',
       Inr ''      </div>\<newline>'',
       Inr ''      <p class="hero__intro">'',
       fmt R (subscript data ''intro''),
       Inr ''</p>\<newline>'',
       Inr ''    </section>\<newline>'',
       Inr ''\<newline>'',
       Inr ''    <!-- 2. Quick Answer Box -->\<newline>'',
       Inr ''    <section class="section" id="quick-answer">\<newline>'',
       Inr ''      <div class="quick-answer">\<newline>'',
       Inr ''        <div class="quick-answer__label">'',
       fmt R (subscript ui ''quick_answer_label''),
       Inr ''</div>\<newline>'',
       Inr ''        <p class="quick-answer__text">'',
       fmt R (subscript data ''quick_answer''),
       Inr ''</p>\<newline>'',
       Inr ''      </div>\<newline>'',
       Inr ''    </section>\<newline>'',
       Inr ''\<newline>'',
       Inr ''    <!-- 3. Why Dragon Ball Is Confusing -->\<newline>'',
       Inr ''    <section class="section" id="why-confusing">\<newline>'',
       Inr why_confusing_html,
       Inr ''\<newline>'',
       Inr ''    </section>\<newline>'',
       Inr ''\<newline>'',
       Inr ''    <!-- 4. Watch Paths -->\<newline>'',
       Inr ''    <section class="section" id="paths">\<newline>'',
       Inr ''      <h2>'',
       fmt R (subscript ui ''paths_heading''),
       Inr ''</h2>\<newline>'',
       Inr ''      <div class="paths-grid">\<newline>'',
       Inr paths_html,
       Inr ''\<newline>'',
       Inr ''      </div>\<newline>'',
       Inr ''    </section>\<newline>'',
       Inr ''\<newline>'',
       Inr ''    <!-- 5. DBZ vs Kai Comparison -->\<newline>'',
       Inr ''    <section class="section" id="compare">\<newline>'',
       Inr ''      <h2>'',
       fmt R (bindE (subscript data ''dbz_vs_kai'') (\<lambda>d. subscript d ''heading'')),
       Inr ''</h2>\<newline>'',
       Inr ''      <p class="section__intro">'',
       fmt R (bindE (subscript data ''dbz_vs_kai'') (\<lambda>d. subscript d ''intro'')),
       Inr ''</p>\<newline>'',
       Inr compare_html,
       Inr ''\<newline>'',
       Inr ''    </section>\<newline>'',
       Inr ''\<newline>'',
       Inr ''    <!-- 6. Complete Dragon Ball Timeline -->\<newline>'',
       Inr ''    <section class="section" id="timeline">\<newline>'',
       Inr ''      <h2>'',
       fmt R (subscript ui ''timeline_heading''),
       Inr ''</h2>\<newline>'',
       Inr ''      <div class="table-wrapper">\<newline>'',
       Inr ''        <table class="timeline-table">\<newline>'',
       Inr ''          <thead>\<newline>'',
       Inr ''            <tr>\<newline>'',
       Inr ''              <th>'',
       fmt R (subscript ui ''col_num''),
       Inr ''</th>\<newline>'',
       Inr ''              <th>'',
       fmt R (subscript ui ''col_title''),
       Inr ''</th>\<newline>'',
       Inr ''              <th>'',
       fmt R (subscript ui ''col_type''),
       Inr ''</th>\<newline>'',
       Inr ''              <th>'',
       fmt R (subscript ui ''col_episodes''),
       Inr ''</th>\<newline>'',
       Inr ''              <th>'',
       fmt R (subscript ui ''col_when''),
       Inr ''</th>\<newline>'',
       Inr ''              <th>'',
       fmt R (subscript ui ''col_path''),
       Inr ''</th>\<newline>'',
       Inr ''              <th>'',
       fmt R (subscript ui ''col_verdict''),
       Inr ''</th>\<newline>'',
       Inr ''              <th>'',
       fmt R (subscript ui ''col_watch''),
       Inr ''</th>\<newline>'',
       Inr ''            </tr>\<newline>'',
       Inr ''          </thead>\<newline>'',
       Inr ''          <tbody>\<newline>'',
       Inr timeline_rows,
       Inr ''\<newline>'',
       Inr ''          </tbody>\<newline>'',
       Inr ''        </table>\<newline>'',
       Inr ''      </div>\<newline>'',
       Inr ''    </section>\<newline>'',
       Inr ''\<newline>'',
       Inr ''    <!-- 7. FAQ Section -->\<newline>'',
       Inr ''    <section class="section" id="faq">\<newline>'',
       Inr ''      <h2>'',
       fmt R (subscript ui ''faq_heading''),
       Inr ''</h2>\<newline>'',
       Inr faq_html,
       Inr ''\<newline>'',
       Inr ''    </section>\<newline>'',
       Inr ''\<newline>'',
       Inr ''    <!-- 8. Streaming Platforms -->\<newline>'',
       Inr ''    <section class="section" id="streaming">\<newline>'',
       Inr ''      <h2>'',
       fmt R (subscript ui ''streaming_heading''),
       Inr ''</h2>\<newline>'',
       Inr ''      <div class="streaming-grid">\<newline>'',
       Inr streaming_html,
       Inr ''\<newline>'',
       Inr ''      </div>\<newline>'',
       Inr ''    </section>\<newline>'',
       Inr ''\<newline>'',
       Inr ''    <!-- 9. Manga Continuation Box -->\<newline>'',
       Inr ''    <section class="section" id="manga">\<newline>'',
       Inr ''      <div class="manga-box">\<newline>'',
       Inr ''        <span class="manga-box__icon">'',
       Inr [CHR 0xF0, CHR 0x9F, CHR 0x93, CHR 0x9A],
       Inr ''</span>\<newline>'',
       Inr ''        <div class="manga-box__title">'',
       fmt R (bindE (subscript data ''manga'') (\<lambda>d. subscript d ''title'')),
       Inr ''</div>\<newline>'',
       Inr ''        <p class="manga-box__desc">'',
       fmt R (bindE (subscript data ''manga'') (\<lambda>d. subscript d ''description'')),
       Inr ''</p>\<newline>'',
       Inr ''        <a href="'',
       fmt R (bindE (subscript data ''manga'') (\<lambda>d. subscript d ''link_url'')),
       Inr ''" class="manga-box__link" target="_blank" rel="noopener noreferrer nofollow">'',
       Inr [CHR 0xE2, CHR 0x86, CHR 0x92],
       Inr '' '',
       fmt R (bindE (subscript data ''manga'') (\<lambda>d. subscript d ''link_text'')),
       Inr ''</a>\<newline>'',
       Inr ''      </div>\<newline>'',
       Inr ''    </section>\<newline>'',
       Inr ''  </main>\<newline>'',
       Inr ''\<newline>'',
       Inr ''  <!-- Footer -->\<newline>'',
       Inr ''  <footer class="footer">\<newline>'',
       Inr ''    <div class="container">\<newline>'',
       Inr ''      <p class="footer__text">'',
       fmt R (subscript ui ''footer_text''),
       Inr ''</p>\<newline>'',
       Inr ''      <p class="footer__affiliate">'',
       fmt R (subscript ui ''footer_affiliate''),
       Inr ''</p>\<newline>'',
       Inr ''    </div>\<newline>'',
       Inr ''  </footer>\<newline>'',
       Inr ''</body>\<newline>'',
       Inr ''</html>''])))))))))\<close>

text \<open>What the orchestrator keeps of a loaded series: its slug and the two guides.\<close>

record series_item =
  item_slug :: string
  item_data :: json

definition home_card ::
  \<open>(json \<Rightarrow> string) \<Rightarrow> string \<Rightarrow> string \<Rightarrow> string \<Rightarrow> series_item \<Rightarrow> error + string\<close> where
  \<open>home_card R lang lang_prefix cta_text s =
     bindE (subscript (item_data s) lang) (\<lambda>d.
     let link = lang_prefix @ ''/'' @ item_slug s @ ''/''
     in bindE (get_default d ''emoji'' (JStr [CHR 0xF0, CHR 0x9F, CHR 0x8E, CHR 0xAC])) (\<lambda>emoji.
     fstring
      [Inr ''      <a href="'',
       Inr link,
       Inr ''" class="series-card">\<newline>'',
       Inr ''        <span class="series-card__emoji">'',
       Inr (py_str R emoji),
       Inr ''</span>\<newline>'',
       Inr ''        <div class="series-card__title">'',
       fmt R (subscript d ''title''),
       Inr ''</div>\<newline>'',
       Inr ''        <div class="series-card__meta">'',
       fmt R (subscript d ''category_tag''),
       Inr ''</div>\<newline>'',
       Inr ''        <span class="series-card__cta">'',
       Inr cta_text,
       Inr '' '',
       Inr [CHR 0xE2, CHR 0x86, CHR 0x92],
       Inr ''</span>\<newline>'',
       Inr ''      </a>\<newline>'']))\<close>

definition generate_homepage ::
  \<open>(json \<Rightarrow> string) \<Rightarrow> string \<Rightarrow> series_item list \<Rightarrow> error + string\<close> where
  \<open>generate_homepage R lang series_list =
     (let lang_prefix = (if lang = ''fr'' then ''/fr'' else []);
          other_prefix = (if lang = ''en'' then ''/fr'' else []);
          other_lang_label = (if lang = ''en'' then ''FR'' else ''EN'');
          other_home = other_prefix @ ''/'';
          home_url = lang_prefix @ ''/'';
          canonical = (if lang = ''en'' then SITE_URL @ ''/'' else SITE_URL @ ''/fr/'');
          en_url = SITE_URL @ ''/'';
          fr_url = SITE_URL @ ''/fr/'';
          title = (if lang = ''en'' then (''AnimeWatchOrder.com '' @ [CHR 0xE2, CHR 0x80, CHR 0x94] @ '' Complete Anime Watch Order Guides'')
                   else (''AnimeWatchOrder.com '' @ [CHR 0xE2, CHR 0x80, CHR 0x94] @ '' Guides d'' @ [CHR 0x27] @ ''Ordre de Visionnage Anime''));
          description = (if lang = ''en'' then ''Clear, structured watch order guides for the most complex anime franchises. Dragon Ball, Naruto, One Piece, and more.''
                         else (''Des guides clairs et structur'' @ [CHR 0xC3, CHR 0xA9] @ ''s pour les franchises anime les plus complexes. Dragon Ball, Naruto, One Piece et plus.''));
          h1_text = (if lang = ''en'' then ''Anime Watch Order Guides'' else (''Guides d'' @ [CHR 0x27] @ ''Ordre de Visionnage Anime''));
          subtitle = (if lang = ''en'' then ''Clear, structured watch order guides for the most complex anime franchises.''
                      else (''Des guides clairs et structur'' @ [CHR 0xC3, CHR 0xA9] @ ''s pour les franchises anime les plus complexes.''));
          nav_home = (if lang = ''en'' then ''Home'' else ''Accueil'');
          cta_text = (if lang = ''en'' then ''View Guide'' else ''Voir le Guide'')
      in bindE (mapE (home_card R lang lang_prefix cta_text) series_list) (\<lambda>cards.
         let cards_html = concat cards
         in fstring
      [Inr ''<!DOCTYPE html>\<newline>'',
       Inr ''<html lang="'',
       Inr lang,
       Inr ''">\<newline>'',
       Inr ''<head>\<newline>'',
       Inr ''  <meta charset="UTF-8">\<newline>'',
       Inr ''  '',
       Inr GTM_HEAD,
       Inr ''\<newline>'',
       Inr ''  '',
       Inr GOOGLE_SITE_VERIFICATION,
       Inr ''\<newline>'',
       Inr ''  <meta name="viewport" content="width=device-width, initial-scale=1.0">\<newline>'',
       Inr ''  <title>'',
       Inr title,
       Inr ''</title>\<newline>'',
       Inr ''  <meta name="description" content="'',
       Inr description,
       Inr ''">\<newline>'',
       Inr ''  <link rel="canonical" href="'',
       Inr canonical,
       Inr ''">\<newline>'',
       Inr ''  <link rel="alternate" hreflang="en" href="'',
       Inr en_url,
       Inr ''">\<newline>'',
       Inr ''  <link rel="alternate" hreflang="fr" href="'',
       Inr fr_url,
       Inr ''">\<newline>'',
       Inr ''  <link rel="alternate" hreflang="x-default" href="'',
       Inr en_url,
       Inr ''">\<newline>'',
       Inr ''  <link rel="preconnect" href="https://fonts.googleapis.com">\<newline>'',
       Inr ''  <link rel="preconnect" href="https://fonts.gstatic.com" crossorigin>\<newline>'',
       Inr ''  <link href="https://fonts.googleapis.com/css2?family=Bebas+Neue&family=Outfit:wght@400;500;600;700&display=swap" rel="stylesheet">\<newline>'',
       Inr ''  <link rel="stylesheet" href="/assets/css/style.css">\<newline>'',
       Inr ''</head>\<newline>'',
       Inr ''<body>\<newline>'',
       Inr ''  <!-- Navigation -->\<newline>'',
       Inr ''  <nav class="nav" aria-label="Main navigation">\<newline>'',
       Inr ''    <div class="container nav__inner">\<newline>'',
       Inr ''      <a href="'',
       Inr home_url,
       Inr ''" class="nav__logo">Anime<span>Watch</span>Order</a>\<newline>'',
       Inr ''      <ul class="nav__links">\<newline>'',
       Inr ''        <li><a href="'',
       Inr home_url,
       Inr ''">'',
       Inr nav_home,
       Inr ''</a></li>\<newline>'',
       Inr ''        <li><a href="'',
       Inr other_home,
       Inr ''" class="nav__lang">'',
       Inr other_lang_label,
       Inr ''</a></li>\<newline>'',
       Inr ''      </ul>\<newline>'',
       Inr ''    </div>\<newline>'',
       Inr ''  </nav>\<newline>'',
       Inr ''\<newline>'',
       Inr ''  <main class="container">\<newline>'',
       Inr ''    <section class="home-hero">\<newline>'',
       Inr ''      <h1>'',
       Inr h1_text,
       Inr ''</h1>\<newline>'',
       Inr ''      <p class="home-hero__subtitle">'',
       Inr subtitle,
       Inr ''</p>\<newline>'',
       Inr ''      <div class="series-grid">\<newline>'',
       Inr cards_html,
       Inr ''\<newline>'',
       Inr ''      </div>\<newline>'',
       Inr ''    </section>\<newline>'',
       Inr ''  </main>\<newline>'',
       Inr ''\<newline>'',
       Inr ''  <footer class="footer">\<newline>'',
       Inr ''    <div class="container">\<newline>'',
       Inr ''      <p class="footer__text">AnimeWatchOrder.com</p>\<newline>'',
       Inr ''    </div>\<newline>'',
       Inr ''  </footer>\<newline>'',
       Inr ''</body>\<newline>'',
       Inr ''</html>'']))\<close>

section \<open>Data loader, writer and orchestrator\<close>

text \<open>
  The file system below the directory of build.py: a path is the list of its
  components, and maps to a file with its text, to a directory, or to nothing.  The
  directory of build.py itself is the empty path and always exists.  Standard output
  is the list of the printed texts.
\<close>

type_synonym path = "string list"

datatype node = File string | Dir

record world =
  files :: "path \<Rightarrow> node option"
  out :: "string list"

type_synonym 'a action = "world \<Rightarrow> (error + 'a) \<times> world"

definition bindA :: "'a action \<Rightarrow> ('a \<Rightarrow> 'b action) \<Rightarrow> 'b action" where
  "bindA m f = (\<lambda>w. case m w of (Inl e, w') \<Rightarrow> (Inl e, w') | (Inr x, w') \<Rightarrow> f x w')"

definition lift :: "error + 'a \<Rightarrow> 'a action" where
  "lift m = (\<lambda>w. (m, w))"

definition print :: "string \<Rightarrow> unit action" where
  "print s = (\<lambda>w. (Inr (), w\<lparr>out := out w @ [s]\<rparr>))"

definition SERIES :: "string list" where
  "SERIES = [''dragon-ball'', ''naruto'']"

text \<open>
  A file is a run of bytes.  It is read and written as UTF-8 text: bytes that are no
  UTF-8 cannot be read, and a text holding a surrogate cannot be written.  The bytes
  of a code point are well formed when they are the shortest form of a code point up
  to 10FFFF that is no surrogate.
\<close>

definition byte_in :: "char \<Rightarrow> nat \<Rightarrow> nat \<Rightarrow> bool" where
  "byte_in c lo hi = (lo \<le> (of_char c :: nat) \<and> (of_char c :: nat) \<le> hi)"

fun valid_utf8 :: "string \<Rightarrow> bool" where
  "valid_utf8 [] = True"
| "valid_utf8 (c # r) =
     (if byte_in c 0 127 then valid_utf8 r
      else if byte_in c 194 223 then
        (case r of
           c1 # r1 \<Rightarrow> byte_in c1 128 191 \<and> valid_utf8 r1
         | _ \<Rightarrow> False)
      else if byte_in c 224 239 then
        (case r of
           c1 # c2 # r2 \<Rightarrow>
             byte_in c1 (if c = CHR 0xE0 then 160 else 128) (if c = CHR 0xED then 159 else 191) \<and>
             byte_in c2 128 191 \<and> valid_utf8 r2
         | _ \<Rightarrow> False)
      else if byte_in c 240 244 then
        (case r of
           c1 # c2 # c3 # r3 \<Rightarrow>
             byte_in c1 (if c = CHR 0xF0 then 144 else 128) (if c = CHR 0xF4 then 143 else 191) \<and>
             byte_in c2 128 191 \<and> byte_in c3 128 191 \<and> valid_utf8 r3
         | _ \<Rightarrow> False)
      else False)"

text \<open>
  A file opened for reading as text gives every line end, \<^verbatim>\<open>\r\n\<close> or \<^verbatim>\<open>\r\<close> or
  \<^verbatim>\<open>\n\<close>, as \<^verbatim>\<open>\n\<close>.
\<close>

fun universal_newlines :: "string \<Rightarrow> string" where
  "universal_newlines [] = []"
| "universal_newlines [c] = (if c = CHR 0x0D then [CHR 0x0A] else [c])"
| "universal_newlines (c # d # r) =
     (if c = CHR 0x0D \<and> d = CHR 0x0A then CHR 0x0A # universal_newlines r
      else if c = CHR 0x0D then CHR 0x0A # universal_newlines (d # r)
      else c # universal_newlines (d # r))"

text \<open>
  \<^verbatim>\<open>load_json\<close>.  The text that \<^verbatim>\<open>str(path)\<close> gives depends on where build.py lies and
  \<^verbatim>\<open>json.load\<close> is library code: both are parameters, \<open>path_text\<close> and \<open>loads\<close>, the
  latter from the text of the file to the value, or to nothing when \<^verbatim>\<open>json.load\<close>
  raises its \<^verbatim>\<open>JSONDecodeError\<close>.
\<close>

definition load_json ::
  "(string \<Rightarrow> json option) \<Rightarrow> (path \<Rightarrow> string) \<Rightarrow> string \<Rightarrow> json action" where
  "load_json loads path_text slug = (\<lambda>w.
     let path = [''data'', slug @ ''.json'']
     in case files w path of
          None \<Rightarrow>
            (Inl (SystemExit 1),
             w\<lparr>out := out w @ [''  [ERROR] Data file not found: '' @ path_text path]\<rparr>)
        | Some Dir \<Rightarrow> (Inl IsADirectoryError, w)
        | Some (File content) \<Rightarrow>
            if \<not> valid_utf8 content then (Inl UnicodeDecodeError, w)
            else (case loads (universal_newlines content) of
                    None \<Rightarrow> (Inl JSONDecodeError, w)
                  | Some v \<Rightarrow> (Inr v, w)))"

text \<open>
  \<^verbatim>\<open>path.parent.mkdir(parents=True, exist_ok=True)\<close>: every directory on the way is
  made unless it exists; a file in the way raises.
\<close>

fun mkdir_parents :: "(path \<Rightarrow> node option) \<Rightarrow> path \<Rightarrow> path \<Rightarrow> error + (path \<Rightarrow> node option)" where
  "mkdir_parents fs done [] = Inr fs"
| "mkdir_parents fs done (d # ds) =
     (case fs (done @ [d]) of
        Some (File c) \<Rightarrow> Inl (if ds = [] then FileExistsError else NotADirectoryError)
      | Some Dir \<Rightarrow> mkdir_parents fs (done @ [d]) ds
      | None \<Rightarrow> mkdir_parents (fs(done @ [d] \<mapsto> Dir)) (done @ [d]) ds)"

definition write_file :: "path \<Rightarrow> string \<Rightarrow> unit action" where
  "write_file path content = (\<lambda>w.
     case mkdir_parents (files w) [] (butlast path) of
       Inl e \<Rightarrow> (Inl e, w)
     | Inr fs \<Rightarrow>
         (case fs path of
            Some Dir \<Rightarrow> (Inl IsADirectoryError, w\<lparr>files := fs\<rparr>)
          | _ \<Rightarrow>
              if \<not> valid_utf8 content
              then (Inl UnicodeEncodeError, w\<lparr>files := fs(path \<mapsto> File [])\<rparr>)
              else (Inr (),
                    w\<lparr>files := fs(path \<mapsto> File content),
                      out := out w @ [''  [OK] '' @ join ''/'' path]\<rparr>)))"

text \<open>The first loop of \<^verbatim>\<open>main\<close>: load every configured series.\<close>

fun load_all ::
  "(string \<Rightarrow> json option) \<Rightarrow> (path \<Rightarrow> string) \<Rightarrow> string list \<Rightarrow> series_item list action" where
  "load_all loads path_text [] = lift (Inr [])"
| "load_all loads path_text (slug # slugs) =
     bindA (print (''\<newline>[1/4] Loading data: '' @ slug)) (\<lambda>_.
     bindA (load_json loads path_text slug) (\<lambda>raw.
     bindA (lift (subscript raw ''en'')) (\<lambda>en.
     bindA (lift (subscript raw ''fr'')) (\<lambda>fr.
     bindA (load_all loads path_text slugs) (\<lambda>items.
     lift (Inr (\<lparr>item_slug = slug, item_data = JObj [(''en'', en), (''fr'', fr)]\<rparr> # items)))))))"

text \<open>The second loop: both pages of every series.\<close>

definition write_series_page :: "(json \<Rightarrow> string) \<Rightarrow> series_item \<Rightarrow> string \<Rightarrow> unit action" where
  "write_series_page R s lang =
     bindA (lift (subscript (item_data s) lang)) (\<lambda>data.
     bindA (lift (generate_series_page R (item_slug s) data lang)) (\<lambda>html.
     write_file (if lang = ''en'' then [item_slug s, ''index.html'']
                 else [''fr'', item_slug s, ''index.html'']) html))"

fun write_series_pages :: "(json \<Rightarrow> string) \<Rightarrow> series_item list \<Rightarrow> unit action" where
  "write_series_pages R [] = lift (Inr ())"
| "write_series_pages R (s # ss) =
     bindA (write_series_page R s ''en'') (\<lambda>_.
     bindA (write_series_page R s ''fr'') (\<lambda>_.
     write_series_pages R ss))"

definition write_homepage :: "(json \<Rightarrow> string) \<Rightarrow> series_item list \<Rightarrow> string \<Rightarrow> unit action" where
  "write_homepage R series_list lang =
     bindA (lift (generate_homepage R lang series_list)) (\<lambda>html.
     write_file (if lang = ''en'' then [''index.html''] else [''fr'', ''index.html'']) html)"

definition main :: "(json \<Rightarrow> string) \<Rightarrow> (string \<Rightarrow> json option) \<Rightarrow> (path \<Rightarrow> string) \<Rightarrow> unit action" where
  "main R loads path_text =
     bindA (print (replicate 60 (CHR ''=''))) (\<lambda>_.
     bindA (print (''AnimeWatchOrder.com '' @ [CHR 0xE2, CHR 0x80, CHR 0x94] @
                   '' Static Site Generator'')) (\<lambda>_.
     bindA (print (replicate 60 (CHR ''=''))) (\<lambda>_.
     bindA (load_all loads path_text SERIES) (\<lambda>series_list.
     bindA (print ''\<newline>[2/4] Generating series pages...'') (\<lambda>_.
     bindA (write_series_pages R series_list) (\<lambda>_.
     bindA (print ''\<newline>[3/4] Generating homepages...'') (\<lambda>_.
     bindA (write_homepage R series_list ''en'') (\<lambda>_.
     bindA (write_homepage R series_list ''fr'') (\<lambda>_.
     bindA (print ''\<newline>[4/4] Generating sitemap...'') (\<lambda>_.
     bindA (write_file [''sitemap.xml''] (generate_sitemap SERIES)) (\<lambda>_.
     bindA (print (''\<newline>'' @ replicate 60 (CHR ''=''))) (\<lambda>_.
     bindA (print (''Build complete! Generated '' @ str_int (int (length SERIES) * 2) @
                   '' series pages + 2 homepages.'')) (\<lambda>_.
     print (replicate 60 (CHR ''='')))))))))))))))"

text \<open>The exit status of a run: an exception that nothing catches ends it with 1.\<close>

fun exit_code :: "error + unit \<Rightarrow> nat" where
  "exit_code (Inr u) = 0"
| "exit_code (Inl (SystemExit n)) = n"
| "exit_code (Inl e) = 1"

section \<open>Reading JSON text\<close>

text \<open>
  The parser of \<^verbatim>\<open>json.loads\<close>, over the text of a file.  An object becomes a dict: a
  key that comes again replaces the value and keeps the place of the first.  A number
  with a fraction or an exponent is a float, which \<^verbatim>\<open>float\<close> makes from its text:
  that is library code and the parameter \<open>fo\<close>.  Python also reads the three
  words \<^verbatim>\<open>NaN\<close>, \<^verbatim>\<open>Infinity\<close> and \<^verbatim>\<open>-Infinity\<close>, which are no JSON: the flag
  \<open>py\<close> says whether they are read, so that the same parser without them is the
  JSON grammar.
\<close>

definition is_ws :: "char \<Rightarrow> bool" where
  "is_ws c = (c = CHR '' '' \<or> c = CHR 0x0A \<or> c = CHR 0x0D \<or> c = CHR 0x09)"

definition skip_ws :: "string \<Rightarrow> string" where
  "skip_ws s = dropWhile is_ws s"

definition is_digit :: "char \<Rightarrow> bool" where
  "is_digit c = ((48::nat) \<le> of_char c \<and> (of_char c :: nat) \<le> 57)"

definition digit_val :: "char \<Rightarrow> nat" where
  "digit_val c = of_char c - 48"

definition hex_val :: "char \<Rightarrow> nat option" where
  "hex_val c =
     (let n = (of_char c :: nat)
      in if 48 \<le> n \<and> n \<le> 57 then Some (n - 48)
         else if 97 \<le> n \<and> n \<le> 102 then Some (n - 87)
         else if 65 \<le> n \<and> n \<le> 70 then Some (n - 55)
         else None)"

text \<open>Four hexadecimal digits, and the UTF-8 bytes of a code point.\<close>

fun hex4 :: "string \<Rightarrow> (nat \<times> string) option" where
  "hex4 (a # b # c # d # r) =
     (case (hex_val a, hex_val b, hex_val c, hex_val d) of
        (Some x, Some y, Some z, Some w) \<Rightarrow> Some (((x * 16 + y) * 16 + z) * 16 + w, r)
      | _ \<Rightarrow> None)"
| "hex4 _ = None"

definition utf8 :: "nat \<Rightarrow> string" where
  "utf8 cp =
     (if cp < 128 then [char_of cp]
      else if cp < 2048 then [char_of (192 + cp div 64), char_of (128 + cp mod 64)]
      else if cp < 65536 then
        [char_of (224 + cp div 4096), char_of (128 + cp div 64 mod 64), char_of (128 + cp mod 64)]
      else
        [char_of (240 + cp div 262144), char_of (128 + cp div 4096 mod 64),
         char_of (128 + cp div 64 mod 64), char_of (128 + cp mod 64)])"

text \<open>
  The rest of a string after its opening quote.  A \<^verbatim>\<open>\u\<close> escape of a high surrogate
  takes the escape of a low surrogate that follows; every other surrogate stays on
  its own.  What four hexadecimal digits leave is shorter than the text, so the two
  tests of the lengths never fail: they are there for the termination proof.
\<close>

function parse_string_body :: "string \<Rightarrow> (string \<times> string) option" where
  "parse_string_body [] = None"
| "parse_string_body (c # r) =
     (if c = CHR 0x22 then Some ([], r)
      else if c = CHR 0x5C then
        (case r of
           [] \<Rightarrow> None
         | e # r' \<Rightarrow>
             if e = CHR ''u'' then
               (case hex4 r' of
                  None \<Rightarrow> None
                | Some (cp, r'') \<Rightarrow>
                    if length r \<le> length r'' then None
                    else if 55296 \<le> cp \<and> cp < 56320 \<and> prefix [CHR 0x5C, CHR ''u''] r'' then
                      (case hex4 (drop 2 r'') of
                         None \<Rightarrow> None
                       | Some (lo, r4) \<Rightarrow>
                           if 56320 \<le> lo \<and> lo < 57344 \<and> length r4 < length r then
                             map_option
                               (\<lambda>sr. (utf8 (65536 + (cp - 55296) * 1024 + (lo - 56320)) @ fst sr,
                                      snd sr))
                               (parse_string_body r4)
                           else map_option (\<lambda>sr. (utf8 cp @ fst sr, snd sr)) (parse_string_body r''))
                    else map_option (\<lambda>sr. (utf8 cp @ fst sr, snd sr)) (parse_string_body r''))
             else
               (case (if e = CHR 0x22 then Some (CHR 0x22)
                      else if e = CHR 0x5C then Some (CHR 0x5C)
                      else if e = CHR ''/'' then Some (CHR ''/'')
                      else if e = CHR ''b'' then Some (CHR 0x08)
                      else if e = CHR ''f'' then Some (CHR 0x0C)
                      else if e = CHR ''n'' then Some (CHR 0x0A)
                      else if e = CHR ''r'' then Some (CHR 0x0D)
                      else if e = CHR ''t'' then Some (CHR 0x09)
                      else None) of
                  None \<Rightarrow> None
                | Some x \<Rightarrow> map_option (\<lambda>sr. (x # fst sr, snd sr)) (parse_string_body r')))
      else if (of_char c :: nat) < 32 then None
      else map_option (\<lambda>sr. (c # fst sr, snd sr)) (parse_string_body r))"
  by pat_completeness auto
termination
  by (relation "measure length") auto

declare parse_string_body.simps [simp del]

text \<open>
  A number: an optional sign, digits without a leading zero, an optional fraction and
  an optional exponent.  Without fraction and exponent it is an integer; otherwise it
  is the float of its text.  A point or an exponent mark that no digit follows makes
  the parser fail here, where Python ends the number before it and fails at the
  next step: no value is followed by a point or a letter.
\<close>

fun parse_digits :: "nat \<Rightarrow> string \<Rightarrow> nat \<times> string" where
  "parse_digits acc [] = (acc, [])"
| "parse_digits acc (c # r) =
     (if is_digit c then parse_digits (acc * 10 + digit_val c) r else (acc, c # r))"

definition parse_nat :: "string \<Rightarrow> (nat \<times> string) option" where
  "parse_nat s =
     (case s of
        [] \<Rightarrow> None
      | c # r \<Rightarrow>
          if \<not> is_digit c then None
          else if c = CHR ''0'' then
            (case r of d # _ \<Rightarrow> if is_digit d then None else Some (0, r) | [] \<Rightarrow> Some (0, r))
          else Some (parse_digits 0 s))"

definition parse_frac :: "string \<Rightarrow> string option" where
  "parse_frac r =
     (case r of
        [] \<Rightarrow> Some []
      | c # r' \<Rightarrow>
          if c = CHR ''.'' then
            (if takeWhile is_digit r' = [] then None else Some (dropWhile is_digit r'))
          else Some r)"

definition parse_exp :: "string \<Rightarrow> string option" where
  "parse_exp r =
     (case r of
        [] \<Rightarrow> Some []
      | c # r' \<Rightarrow>
          if c = CHR ''e'' \<or> c = CHR ''E'' then
            (let r'' = (case r' of
                          [] \<Rightarrow> []
                        | d # t \<Rightarrow> if d = CHR ''+'' \<or> d = CHR ''-'' then t else r')
             in if takeWhile is_digit r'' = [] then None else Some (dropWhile is_digit r''))
          else Some r)"

definition parse_number :: "(string \<Rightarrow> pyfloat) \<Rightarrow> string \<Rightarrow> (json \<times> string) option" where
  "parse_number fo s =
     (let neg = (s \<noteq> [] \<and> hd s = CHR ''-'');
          body = (if neg then tl s else s)
      in case parse_nat body of
           None \<Rightarrow> None
         | Some (n, r) \<Rightarrow>
             (case parse_frac r of
                None \<Rightarrow> None
              | Some r1 \<Rightarrow>
                  (case parse_exp r1 of
                     None \<Rightarrow> None
                   | Some r2 \<Rightarrow>
                       if length r2 = length r
                       then Some (JInt (if neg then - int n else int n), r)
                       else Some (JFloat (fo (take (length s - length r2) s)), r2))))"

text \<open>The three words that only Python reads.\<close>

definition parse_constant :: "string \<Rightarrow> (json \<times> string) option" where
  "parse_constant s =
     (if prefix ''NaN'' s then Some (JFloat FNaN, drop 3 s)
      else if prefix ''Infinity'' s then Some (JFloat FInf, drop 8 s)
      else if prefix ''-Infinity'' s then Some (JFloat FNegInf, drop 9 s)
      else None)"

text \<open>
  Values, the elements of an array after its first and the members of an object
  after its first.  The fuel bounds the number of nested calls; the length of the text
  is enough.
\<close>

fun parse_value ::
    "bool \<Rightarrow> (string \<Rightarrow> pyfloat) \<Rightarrow> nat \<Rightarrow> string \<Rightarrow> (json \<times> string) option"
  and parse_elems ::
    "bool \<Rightarrow> (string \<Rightarrow> pyfloat) \<Rightarrow> nat \<Rightarrow> json list \<Rightarrow> string \<Rightarrow>
     (json list \<times> string) option"
  and parse_members ::
    "bool \<Rightarrow> (string \<Rightarrow> pyfloat) \<Rightarrow> nat \<Rightarrow> (string \<times> json) list \<Rightarrow> string \<Rightarrow>
     ((string \<times> json) list \<times> string) option"
where
  "parse_value py fo 0 s = None"
| "parse_value py fo (Suc n) s =
     (case skip_ws s of
        [] \<Rightarrow> None
      | c # r \<Rightarrow>
          if c = CHR 0x22 then map_option (\<lambda>sr. (JStr (fst sr), snd sr)) (parse_string_body r)
          else if c = CHR ''['' then
            (case skip_ws r of
               [] \<Rightarrow> None
             | d # r' \<Rightarrow>
                 if d = CHR '']'' then Some (JArr [], r')
                 else (case parse_value py fo n r of
                         None \<Rightarrow> None
                       | Some (v, r1) \<Rightarrow>
                           map_option (\<lambda>xr. (JArr (fst xr), snd xr)) (parse_elems py fo n [v] r1)))
          else if c = CHR ''{'' then
            (case skip_ws r of
               [] \<Rightarrow> None
             | d # r' \<Rightarrow>
                 if d = CHR ''}'' then Some (JObj [], r')
                 else map_option (\<lambda>mr. (JObj (fst mr), snd mr)) (parse_members py fo n [] r))
          else if prefix ''true'' (c # r) then Some (JBool True, drop 4 (c # r))
          else if prefix ''false'' (c # r) then Some (JBool False, drop 5 (c # r))
          else if prefix ''null'' (c # r) then Some (JNull, drop 4 (c # r))
          else (case parse_number fo (c # r) of
                  Some vr \<Rightarrow> Some vr
                | None \<Rightarrow> if py then parse_constant (c # r) else None))"
| "parse_elems py fo 0 acc s = None"
| "parse_elems py fo (Suc n) acc s =
     (case skip_ws s of
        [] \<Rightarrow> None
      | c # r \<Rightarrow>
          if c = CHR '']'' then Some (acc, r)
          else if c = CHR '','' then
            (case parse_value py fo n r of
               None \<Rightarrow> None
             | Some (v, r1) \<Rightarrow> parse_elems py fo n (acc @ [v]) r1)
          else None)"
| "parse_members py fo 0 acc s = None"
| "parse_members py fo (Suc n) acc s =
     (case skip_ws s of
        [] \<Rightarrow> None
      | c # r \<Rightarrow>
          if c = CHR 0x22 then
            (case parse_string_body r of
               None \<Rightarrow> None
             | Some (k, r1) \<Rightarrow>
                 (case skip_ws r1 of
                    [] \<Rightarrow> None
                  | d # r2 \<Rightarrow>
                      if d = CHR '':'' then
                        (case parse_value py fo n r2 of
                           None \<Rightarrow> None
                         | Some (v, r3) \<Rightarrow>
                             (case skip_ws r3 of
                                [] \<Rightarrow> None
                              | e # r4 \<Rightarrow>
                                  if e = CHR ''}'' then Some (AList.update k v acc, r4)
                                  else if e = CHR '','' then
                                    parse_members py fo n (AList.update k v acc) r4
                                  else None))
                      else None))
          else None)"

definition json_read :: "bool \<Rightarrow> (string \<Rightarrow> pyfloat) \<Rightarrow> string \<Rightarrow> json option" where
  "json_read py fo s =
     (case parse_value py fo (Suc (length s)) s of
        None \<Rightarrow> None
      | Some (v, r) \<Rightarrow> if skip_ws r = [] then Some v else None)"

text \<open>\<^verbatim>\<open>json.loads\<close>, and the reader of the JSON grammar.\<close>

definition json_loads :: "(string \<Rightarrow> pyfloat) \<Rightarrow> string \<Rightarrow> json option" where
  "json_loads fo = json_read True fo"


text \<open>
  A value of the model stands for a Python value that \<^verbatim>\<open>json.load\<close> can give when no
  dict has a key twice and the text of every finite float is read back to that float.
\<close>

definition float_text :: "(string \<Rightarrow> pyfloat) \<Rightarrow> string \<Rightarrow> bool" where
  "float_text fo t = (parse_number fo t = Some (JFloat (FNum t), []))"

fun wf_float :: "(string \<Rightarrow> pyfloat) \<Rightarrow> pyfloat \<Rightarrow> bool" where
  "wf_float fo (FNum t) = float_text fo t"
| "wf_float fo f = True"

fun wf_json :: "(string \<Rightarrow> pyfloat) \<Rightarrow> json \<Rightarrow> bool" where
  "wf_json fo (JArr xs) = (\<forall>x\<in>set xs. wf_json fo x)"
| "wf_json fo (JObj kvs) = (distinct (map fst kvs) \<and> (\<forall>kv\<in>set kvs. wf_json fo (snd kv)))"
| "wf_json fo (JFloat f) = wf_float fo f"
| "wf_json fo v = True"

text \<open>A value that holds no float other than the finite ones.\<close>

fun finite_json :: "json \<Rightarrow> bool" where
  "finite_json (JArr xs) = (\<forall>x\<in>set xs. finite_json x)"
| "finite_json (JObj kvs) = (\<forall>kv\<in>set kvs. finite_json (snd kv))"
| "finite_json (JFloat f) = (\<exists>t. f = FNum t)"
| "finite_json v = True"

text \<open>The number of nested calls that reading a value back takes at most.\<close>

fun cost :: "json \<Rightarrow> nat" where
  "cost (JArr xs) = Suc (sum_list (map (\<lambda>x. Suc (cost x)) xs))"
| "cost (JObj kvs) = Suc (sum_list (map (\<lambda>kv. Suc (cost (snd kv))) kvs))"
| "cost _ = 1"

section \<open>Vocabulary of the properties\<close>

text \<open>The closed sets of categorical keys.\<close>

definition type_keys :: "json set" where
  "type_keys = JStr ` {''canon'', ''mixed'', ''film_canon'', ''non_canon'', ''filler''}"

definition verdict_keys :: "json set" where
  "verdict_keys = JStr ` {''must_watch'', ''watchable'', ''skip''}"

text \<open>A label dictionary for the examples.\<close>

definition ui_example :: json where
  "ui_example = JObj
     [(''must_watch'', JStr ''Must Watch''),
      (''watchable'', JStr ''Watchable''),
      (''skip'', JStr ''Skip''),
      (''canon'', JStr ''Canon''),
      (''mixed'', JStr ''Mixed''),
      (''film_canon'', JStr ''Canon Film''),
      (''non_canon'', JStr ''Non-Canon''),
      (''recommended_label'', JStr ''Recommended'')]"

text \<open>The text \<^verbatim>\<open>repr\<close> gives for lists and dicts, in the examples.\<close>

definition repr_example :: "json \<Rightarrow> string" where
  "repr_example v = []"


text \<open>The timeline entry of the end-to-end example, and the same entry with a watch URL.\<close>

definition entry_dragon_ball :: json where
  "entry_dragon_ball = JObj
     [(''num'', JInt 1),
      (''title'', JStr ''Dragon Ball''),
      (''subtitle'', JStr ''Ep 1-153''),
      (''type'', JStr ''canon''),
      (''episodes'', JStr ''153''),
      (''when'', JStr ''1986''),
      (''path'', JStr ''Path A''),
      (''verdict'', JStr ''must_watch''),
      (''recommended'', JBool True)]"


text \<open>
  The end of a streaming card: the call-to-action anchor with its target, the extra
  style class after \<^verbatim>\<open>streaming-card__cta\<close> and its text.
\<close>

definition cta_anchor :: \<open>string \<Rightarrow> string \<Rightarrow> string \<Rightarrow> string\<close> where
  \<open>cta_anchor url extra cta =
     ''        <a href="'' @ url @ ''" class="streaming-card__cta '' @ extra @
     ''" target="_blank" rel="noopener noreferrer nofollow">'' @ cta @
     ''</a>\<newline>      </div>''\<close>

definition streaming_example :: json where
  "streaming_example = JObj
     [(''streaming'', JArr
        [JObj [(''icon'', JStr ''C''), (''platform'', JStr ''Crunchyroll''),
               (''available'', JArr [JStr ''Dragon Ball'', JStr ''Dragon Ball Z'']),
               (''url'', JStr ''https://example.org/cr''), (''cta'', JStr ''Watch'')],
         JObj [(''icon'', JStr ''N''), (''platform'', JStr ''Netflix''),
               (''available'', JArr []),
               (''url'', JStr ''https://example.org/nf''), (''cta'', JStr ''Try'')]])]"

text \<open>A complete guide for the examples: one entry in every list, short texts.\<close>

definition ui_full :: json where
  "ui_full = JObj
     [(''must_watch'', JStr ''Must Watch''),
      (''watchable'', JStr ''Watchable''),
      (''skip'', JStr ''Skip''),
      (''canon'', JStr ''Canon''),
      (''mixed'', JStr ''Mixed''),
      (''film_canon'', JStr ''Canon Film''),
      (''non_canon'', JStr ''Non-Canon''),
      (''recommended_label'', JStr ''Recommended''),
      (''why_confusing_label'', JStr ''Why it is confusing''),
      (''nav_home'', JStr ''Home''),
      (''lang_switch'', JStr ''FR''),
      (''quick_answer_label'', JStr ''Quick answer''),
      (''paths_heading'', JStr ''Watch paths''),
      (''timeline_heading'', JStr ''Timeline''),
      (''col_num'', JStr ''No''),
      (''col_title'', JStr ''Title''),
      (''col_type'', JStr ''Type''),
      (''col_episodes'', JStr ''Episodes''),
      (''col_when'', JStr ''When''),
      (''col_path'', JStr ''Path''),
      (''col_verdict'', JStr ''Verdict''),
      (''col_watch'', JStr ''Watch''),
      (''faq_heading'', JStr ''FAQ''),
      (''streaming_heading'', JStr ''Streaming''),
      (''footer_text'', JStr ''AnimeWatchOrder.com''),
      (''footer_affiliate'', JStr ''Affiliate links'')]"

definition guide_with :: "string \<Rightarrow> json" where
  "guide_with meta_title = JObj
     [(''ui'', ui_full),
      (''title'', JStr ''Dragon Ball''),
      (''meta_title'', JStr meta_title),
      (''meta_description'', JStr ''The order to watch Dragon Ball in''),
      (''category_tag'', JStr ''Shonen''),
      (''hero'', JObj [(''series'', JInt 5), (''films'', JInt 21), (''hours'', JInt 300),
                      (''updated'', JStr ''2026'')]),
      (''intro'', JStr ''Five series and many films.''),
      (''quick_answer'', JStr ''Start with Dragon Ball.''),
      (''why_confusing'', JObj [(''content'', JStr ''Two versions of one series.'')]),
      (''paths'', JArr
         [JObj [(''icon'', JStr ''A''), (''name'', JStr ''Path A''), (''subtitle'', JStr ''Canon only''),
                (''description'', JStr ''The short way''), (''hours'', JStr ''120 h''),
                (''includes'', JStr ''Series only''), (''recommended'', JBool True)]]),
      (''dbz_vs_kai'', JObj
         [(''heading'', JStr ''Z or Kai''), (''intro'', JStr ''One story, two cuts.''),
          (''cards'', JArr
             [JObj [(''title'', JStr ''Kai''), (''subtitle'', JStr ''2009''),
                    (''recommended'', JBool True),
                    (''stats'', JArr [JObj [(''label'', JStr ''Episodes''), (''value'', JInt 167)]])]]),
          (''verdict'', JStr ''Watch Kai.'')]),
      (''timeline'', JArr [entry_dragon_ball]),
      (''faq'', JArr [JObj [(''question'', JStr ''Where to start?''),
                           (''answer'', JStr ''With Dragon Ball.'')]]),
      (''streaming'', JArr
         [JObj [(''icon'', JStr ''C''), (''platform'', JStr ''Crunchyroll''),
                (''available'', JArr [JStr ''Dragon Ball'']),
                (''url'', JStr ''https://example.org/cr''), (''cta'', JStr ''Watch'')]]),
      (''manga'', JObj [(''title'', JStr ''The manga''), (''description'', JStr ''It goes on.''),
                       (''link_url'', JStr ''https://example.org/manga''),
                       (''link_text'', JStr ''Read'')])]"

definition guide_example :: json where
  "guide_example = guide_with ''Dragon Ball Watch Order''"

text \<open>Where the data file of a slug lies, and what the loader reports when it is missing.\<close>

definition data_path :: "string \<Rightarrow> path" where
  "data_path slug = [''data'', slug @ ''.json'']"

definition missing_report :: "(path \<Rightarrow> string) \<Rightarrow> string \<Rightarrow> string" where
  "missing_report path_text slug = ''  [ERROR] Data file not found: '' @ path_text (data_path slug)"

text \<open>
  A series loads when its data file exists, can be read as text, parses and has both
  languages.
\<close>

definition loadable :: "(string \<Rightarrow> json option) \<Rightarrow> world \<Rightarrow> string \<Rightarrow> bool" where
  "loadable loads w slug =
     (case files w (data_path slug) of
        Some (File content) \<Rightarrow>
          valid_utf8 content \<and>
          (case loads (universal_newlines content) of
             Some raw \<Rightarrow> \<not> isl (subscript raw ''en'') \<and> \<not> isl (subscript raw ''fr'')
           | None \<Rightarrow> False)
      | _ \<Rightarrow> False)"

text \<open>
  What a run prints before it loads the first series and when it starts to load a
  series, and the errors of a series whose data file is there and that does not load.
\<close>

definition banner :: "string list" where
  "banner =
     [replicate 60 (CHR ''=''),
      ''AnimeWatchOrder.com '' @ [CHR 0xE2, CHR 0x80, CHR 0x94] @ '' Static Site Generator'',
      replicate 60 (CHR ''='')]"

definition loading_line :: "string \<Rightarrow> string" where
  "loading_line slug = ''\<newline>[1/4] Loading data: '' @ slug"

definition load_errors :: "error set" where
  "load_errors =
     {IsADirectoryError, UnicodeDecodeError, JSONDecodeError, TypeError,
      KeyError ''en'', KeyError ''fr''}"

subsection \<open>Reading the generated text\<close>

text \<open>The number of places of a text where a pattern starts.\<close>

fun count_sub :: "string \<Rightarrow> string \<Rightarrow> nat" where
  "count_sub p [] = (if p = [] then 1 else 0)"
| "count_sub p (c # cs) = (if prefix p (c # cs) then 1 else 0) + count_sub p cs"




text \<open>
  A text dangles for a pattern when one of its non-empty endings is a beginning of the
  pattern that is not the whole pattern: an occurrence may start there and run on.
\<close>

fun dangling :: "string \<Rightarrow> string \<Rightarrow> bool" where
  "dangling p [] = False"
| "dangling p (c # cs) = (strict_prefix (c # cs) p \<or> dangling p cs)"

text \<open>
  A text heads a string \<open>q\<close> when one of the non-empty endings of \<open>q\<close> starts the
  text or is started by it: an occurrence that began earlier may run into the text.
\<close>

fun heads :: "string \<Rightarrow> string \<Rightarrow> bool" where
  "heads [] y = False"
| "heads (c # s) y = (prefix (c # s) y \<or> prefix y (c # s) \<or> heads s y)"

definition right_closed :: "string \<Rightarrow> string \<Rightarrow> bool" where
  "right_closed p x = (\<not> dangling p x)"

definition left_closed :: "string \<Rightarrow> string \<Rightarrow> bool" where
  "left_closed p y = (y = [] \<or> \<not> heads (tl p) y)"



text \<open>The text of a piece of an f-string that did not raise.\<close>

definition seg_text :: "error + string \<Rightarrow> string" where
  "seg_text m = (case m of Inl e \<Rightarrow> [] | Inr s \<Rightarrow> s)"





section \<open>Reading back what the serializer writes: notions\<close>

definition number_end :: "string \<Rightarrow> bool" where
  "number_end r = (r = [] \<or> (\<not> is_digit (hd r) \<and> hd r \<notin> {CHR ''.'', CHR ''e'', CHR ''E''}))"

definition delim :: "string \<Rightarrow> bool" where
  "delim r = (r = [] \<or> hd r = CHR '','' \<or> hd r = CHR 0x0A)"

definition reads :: "bool \<Rightarrow> (string \<Rightarrow> pyfloat) \<Rightarrow> json \<Rightarrow> bool" where
  "reads py fo v = (\<forall>n k r. cost v \<le> n \<longrightarrow> delim r \<longrightarrow>
     parse_value py fo n (json_dumps_at k v @ r) = Some (v, r))"

definition member_text :: "nat \<Rightarrow> string \<times> json \<Rightarrow> string" where
  "member_text k kv = json_string (fst kv) @ CHR '':'' # CHR '' '' # json_dumps_at k (snd kv)"



text \<open>
  Three file systems for the examples: in all of them the data file of \<^verbatim>\<open>naruto\<close> is
  absent; the data file of \<^verbatim>\<open>dragon-ball\<close> has both languages in the first, is a
  directory in the second and is cut off after its first character in the third.
\<close>

definition both_languages :: string where
  "both_languages = json_dumps (JObj [(''en'', JObj []), (''fr'', JObj [])])"

definition world_missing :: world where
  "world_missing =
     \<lparr>files = [[''data''] \<mapsto> Dir, data_path ''dragon-ball'' \<mapsto> File both_languages],
      out = []\<rparr>"

definition world_directory :: world where
  "world_directory =
     \<lparr>files = [[''data''] \<mapsto> Dir, data_path ''dragon-ball'' \<mapsto> Dir], out = []\<rparr>"

definition world_broken :: world where
  "world_broken =
     \<lparr>files = [[''data''] \<mapsto> Dir, data_path ''dragon-ball'' \<mapsto> File ''{''],
      out = []\<rparr>"

text \<open>
  A value that the parser reads back from its text: with the three words of Python
  every value, without them the values that hold only finite floats.  Then a guide
  with two timeline entries and two FAQ entries, and a guide whose description is
  not a number.
\<close>

definition readable :: "bool \<Rightarrow> (string \<Rightarrow> pyfloat) \<Rightarrow> json \<Rightarrow> bool" where
  "readable py fo v = (wf_json fo v \<and> (py \<or> finite_json v))"



section \<open>Basic facts about the error monad, f-strings and loops\<close>

lemma bindE_simps [simp]: "bindE (Inl e) f = Inl e" "bindE (Inr x) f = f x"
  by (simp_all add: bindE_def)

lemma bindE_Inr_iff: "bindE m f = Inr y \<longleftrightarrow> (\<exists>x. m = Inr x \<and> f x = Inr y)"
  by (cases m) simp_all

lemma bindE_InrE:
  assumes "bindE m f = Inr y"
  obtains x where "m = Inr x" and "f x = Inr y"
  using assms by (auto simp: bindE_Inr_iff)

lemma fstring_Cons_iff:
  "fstring (m # ms) = Inr h \<longleftrightarrow> (\<exists>s t. m = Inr s \<and> fstring ms = Inr t \<and> h = s @ t)"
  by (cases m) (auto simp: bindE_Inr_iff)

lemma fstring_append:
  "fstring (a @ b) = bindE (fstring a) (\<lambda>x. bindE (fstring b) (\<lambda>y. Inr (x @ y)))"
proof (induction a rule: fstring.induct)
  case 1
  show ?case by (cases "fstring b") simp_all
next
  case (2 e ms)
  show ?case by simp
next
  case (3 s ms)
  then show ?case by (cases "fstring ms"; cases "fstring b") simp_all
qed

lemma fstring_split:
  "fstring L = bindE (fstring (take n L)) (\<lambda>x. bindE (fstring (drop n L)) (\<lambda>y. Inr (x @ y)))"
  using fstring_append [of "take n L" "drop n L"] by simp

lemma mapE_Inr_iff:
  "mapE f xs = Inr ys \<longleftrightarrow> length ys = length xs \<and> (\<forall>i<length xs. f (xs ! i) = Inr (ys ! i))"
proof (induction xs arbitrary: ys)
  case Nil
  show ?case by auto
next
  case (Cons x xs)
  show ?case
  proof (cases ys)
    case Nil
    then show ?thesis by (auto simp: bindE_Inr_iff)
  next
    case (Cons y ys')
    then show ?thesis
      by (auto simp: bindE_Inr_iff Cons.IH All_less_Suc2)
  qed
qed

lemma fstring_Inr_all:
  "fstring ms = Inr h \<Longrightarrow> m \<in> set ms \<Longrightarrow> \<exists>s. m = Inr s"
proof (induction ms arbitrary: h rule: fstring.induct)
  case 1
  then show ?case by simp
next
  case (2 e ms)
  then show ?case by simp
next
  case (3 s ms)
  then show ?case by (auto simp: bindE_Inr_iff)
qed

section \<open>Field formatters: the fallback for unknown keys\<close>

lemma dict_get_fallback:
  "hashable k \<Longrightarrow> k \<notin> JStr ` fst ` set m \<Longrightarrow> dict_get m k d = Inr d"
proof (cases k)
  case (JStr s)
  assume "k \<notin> JStr ` fst ` set m"
  with JStr have "s \<notin> fst ` set m" by auto
  then have "map_of m s = None" by (simp add: map_of_eq_None_iff)
  with JStr show ?thesis by (simp add: dict_get_def)
qed (simp_all add: dict_get_def)

text \<open>
  C1 (as the code has it).  For a key outside the closed set that can be hashed (a
  string, a number, a boolean or \<^verbatim>\<open>None\<close>), \<^const>\<open>badge_class\<close> returns
  \<^verbatim>\<open>badge--canon\<close> and \<^const>\<open>verdict_class\<close> returns \<^verbatim>\<open>verdict--watchable\<close>.
  \<^const>\<open>verdict_label\<close> and \<^const>\<open>type_label\<close> first read the labels of the known keys from
  the label dictionary, raising where one is missing, and then return the unknown key
  itself, not the label of the default category.
\<close>

theorem formatters_fallback:
  assumes "hashable k"
  shows "(k \<notin> type_keys \<longrightarrow>
            badge_class k = Inr ''badge--canon'' \<and>
            type_label k ui =
              bindE (subscript ui ''canon'') (\<lambda>_.
              bindE (subscript ui ''mixed'') (\<lambda>_.
              bindE (subscript ui ''film_canon'') (\<lambda>_.
              bindE (subscript ui ''non_canon'') (\<lambda>_.
              bindE (get_default ui ''filler'' (JStr ''Filler'')) (\<lambda>_. Inr k)))))) \<and>
         (k \<notin> verdict_keys \<longrightarrow>
            verdict_class k = Inr ''verdict--watchable'' \<and>
            verdict_label k ui =
              bindE (subscript ui ''must_watch'') (\<lambda>_.
              bindE (subscript ui ''watchable'') (\<lambda>_.
              bindE (subscript ui ''skip'') (\<lambda>_. Inr k))))"
proof (intro conjI impI)
  assume t: "k \<notin> type_keys"
  from assms t show "badge_class k = Inr ''badge--canon''"
    unfolding badge_class_def by (intro dict_get_fallback) (auto simp: type_keys_def)
  from assms t show "type_label k ui =
      bindE (subscript ui ''canon'') (\<lambda>_.
      bindE (subscript ui ''mixed'') (\<lambda>_.
      bindE (subscript ui ''film_canon'') (\<lambda>_.
      bindE (subscript ui ''non_canon'') (\<lambda>_.
      bindE (get_default ui ''filler'' (JStr ''Filler'')) (\<lambda>_. Inr k)))))"
    unfolding type_label_def
    by (auto simp: bindE_def type_keys_def dict_get_fallback split: sum.splits)
next
  assume v: "k \<notin> verdict_keys"
  from assms v show "verdict_class k = Inr ''verdict--watchable''"
    unfolding verdict_class_def by (intro dict_get_fallback) (auto simp: verdict_keys_def)
  from assms v show "verdict_label k ui =
      bindE (subscript ui ''must_watch'') (\<lambda>_.
      bindE (subscript ui ''watchable'') (\<lambda>_.
      bindE (subscript ui ''skip'') (\<lambda>_. Inr k)))"
    unfolding verdict_label_def
    by (auto simp: bindE_def verdict_keys_def dict_get_fallback split: sum.splits)
qed

theorem formatters_fallback_witness:
  "hashable (JStr ''ova'') \<and> JStr ''ova'' \<notin> type_keys \<and> JStr ''ova'' \<notin> verdict_keys \<and>
   badge_class (JStr ''ova'') = Inr ''badge--canon'' \<and>
   verdict_class (JStr ''ova'') = Inr ''verdict--watchable'' \<and>
   type_label (JStr ''ova'') ui_example = Inr (JStr ''ova'') \<and>
   verdict_label (JStr ''ova'') ui_example = Inr (JStr ''ova'')"
  using formatters_fallback [of "JStr ''ova''" ui_example]
  by (simp add: type_keys_def verdict_keys_def bindE_def ui_example_def get_default_def)

text \<open>
  The claim as the specification words it fails: for the unknown verdict \<^verbatim>\<open>ova\<close> the
  label is the key itself, while the label of the default category is \<^verbatim>\<open>Watchable\<close>;
  and an unknown key does raise when the label dictionary lacks a known key's label.
\<close>

theorem formatters_fallback_counterexample:
  "JStr ''ova'' \<notin> verdict_keys \<and>
   verdict_label (JStr ''ova'') ui_example = Inr (JStr ''ova'') \<and>
   subscript ui_example ''watchable'' = Inr (JStr ''Watchable'') \<and>
   verdict_label (JStr ''ova'') (JObj []) = Inl (KeyError ''must_watch'')"
  by (simp add: verdict_keys_def verdict_label_def bindE_def ui_example_def dict_get_def)

section \<open>Facts about counting and splitting text\<close>

lemma count_sub_Nil [simp]: "p \<noteq> [] \<Longrightarrow> count_sub p [] = 0"
  by simp



lemma right_closed_Nil [simp]: "right_closed p []"
  by (simp add: right_closed_def)

lemma left_closed_Nil [simp]: "left_closed p []"
  by (simp add: left_closed_def)






lemma count_sub_mono_right: "p \<noteq> [] \<Longrightarrow> count_sub p x \<le> count_sub p (x @ y)"
proof (induction x)
  case Nil
  then show ?case by simp
next
  case (Cons c x)
  have "prefix p (c # x) \<Longrightarrow> prefix p (c # x @ y)"
    by (metis append_Cons prefix_prefix)
  with Cons show ?case by auto
qed

lemma count_sub_mono_left: "p \<noteq> [] \<Longrightarrow> count_sub p y \<le> count_sub p (x @ y)"
  by (induction x) auto

lemma count_sub_pos_mid:
  "p \<noteq> [] \<Longrightarrow> 0 < count_sub p y \<Longrightarrow> 0 < count_sub p (x @ y @ z)"
  using count_sub_mono_left [of p "y @ z" x] count_sub_mono_right [of p y z] by simp














lemma fstring_concat: "fstring ms = Inr h \<Longrightarrow> h = concat (map seg_text ms)"
proof (induction ms arbitrary: h rule: fstring.induct)
  case 1
  then show ?case by simp
next
  case (2 e ms)
  then show ?case by simp
next
  case (3 s ms)
  then show ?case by (auto simp: bindE_Inr_iff seg_text_def)
qed

lemma seg_text_Inr [simp]: "seg_text (Inr s) = s"
  by (simp add: seg_text_def)








section \<open>The parser reads back what the serializer writes\<close>

subsection \<open>Strings\<close>

lemma psb_quote: "parse_string_body (CHR 0x22 # r) = Some ([], r)"
  by (simp add: parse_string_body.simps)

lemma psb_plain:
  "c \<noteq> CHR 0x22 \<Longrightarrow> c \<noteq> CHR 0x5C \<Longrightarrow> \<not> (of_char c :: nat) < 32 \<Longrightarrow>
   parse_string_body (c # r) = map_option (\<lambda>sr. (c # fst sr, snd sr)) (parse_string_body r)"
  by (simp add: parse_string_body.simps)

lemma psb_escape:
  "parse_string_body (CHR 0x5C # CHR 0x22 # r) =
     map_option (\<lambda>sr. (CHR 0x22 # fst sr, snd sr)) (parse_string_body r)"
  "parse_string_body (CHR 0x5C # CHR 0x5C # r) =
     map_option (\<lambda>sr. (CHR 0x5C # fst sr, snd sr)) (parse_string_body r)"
  "parse_string_body (CHR 0x5C # CHR ''n'' # r) =
     map_option (\<lambda>sr. (CHR 0x0A # fst sr, snd sr)) (parse_string_body r)"
  "parse_string_body (CHR 0x5C # CHR ''r'' # r) =
     map_option (\<lambda>sr. (CHR 0x0D # fst sr, snd sr)) (parse_string_body r)"
  "parse_string_body (CHR 0x5C # CHR ''t'' # r) =
     map_option (\<lambda>sr. (CHR 0x09 # fst sr, snd sr)) (parse_string_body r)"
  "parse_string_body (CHR 0x5C # CHR ''b'' # r) =
     map_option (\<lambda>sr. (CHR 0x08 # fst sr, snd sr)) (parse_string_body r)"
  "parse_string_body (CHR 0x5C # CHR ''f'' # r) =
     map_option (\<lambda>sr. (CHR 0x0C # fst sr, snd sr)) (parse_string_body r)"
  by (simp_all add: parse_string_body.simps)

lemma hex_val_hex_digit_all: "\<forall>d\<in>set [0..<16]. hex_val (hex_digit d) = Some d"
  by code_simp

lemma hex_val_hex_digit: "d < 16 \<Longrightarrow> hex_val (hex_digit d) = Some d"
  using hex_val_hex_digit_all by simp

lemma psb_control:
  assumes "(of_char c :: nat) < 32"
  shows "parse_string_body
           (CHR 0x5C # CHR ''u'' # CHR ''0'' # CHR ''0'' #
            hex_digit (of_char c div 16) # hex_digit (of_char c mod 16) # r) =
         map_option (\<lambda>sr. (c # fst sr, snd sr)) (parse_string_body r)"
proof -
  let ?n = "of_char c :: nat"
  have h: "hex_val (hex_digit (?n div 16)) = Some (?n div 16)"
    "hex_val (hex_digit (?n mod 16)) = Some (?n mod 16)"
    using assms by (simp_all add: hex_val_hex_digit)
  have z: "hex_val (CHR ''0'') = Some 0" by (simp add: hex_val_def)
  have cp: "((0 * 16 + 0) * 16 + ?n div 16) * 16 + ?n mod 16 = ?n" by simp
  have u: "utf8 ?n = [c]" using assms by (simp add: utf8_def)
  show ?thesis
    using assms by (simp add: parse_string_body.simps h z u)
qed

lemma parse_escaped:
  "parse_string_body (concat (map escape_char s) @ CHR 0x22 # r) = Some (s, r)"
proof (induction s)
  case Nil
  show ?case by (simp add: psb_quote)
next
  case (Cons c s)
  show ?case
    using Cons.IH
    by (simp add: escape_char_def psb_escape psb_control psb_plain)
qed

lemma parse_json_string:
  "parse_string_body (tl (json_string s) @ r) = Some (s, r)"
  using parse_escaped [of s r] by (simp add: json_string_def)

subsection \<open>Integers\<close>

lemma digit_char_0: "digit_char 0 = CHR ''0''"
  by code_simp

lemma digit_char_facts:
  assumes "d < 10"
  shows "is_digit (digit_char d)" "digit_val (digit_char d) = d"
    "digit_char d \<noteq> CHR ''-''" "(digit_char d = CHR ''0'') = (d = 0)"
    "digit_char d \<noteq> CHR 0x22" "digit_char d \<noteq> CHR ''[''" "digit_char d \<noteq> CHR ''{''"
    "\<not> is_ws (digit_char d)"
proof -
  have o: "(of_char (digit_char d) :: nat) = 48 + d"
    using assms by (simp add: digit_char_def)
  show "is_digit (digit_char d)" "digit_val (digit_char d) = d"
    using assms by (simp_all add: is_digit_def digit_val_def o)
  have ne: "digit_char d \<noteq> c" if "(of_char c :: nat) \<noteq> 48 + d" for c
    using that o by auto
  show "digit_char d \<noteq> CHR ''-''" "digit_char d \<noteq> CHR 0x22" "digit_char d \<noteq> CHR ''[''"
    "digit_char d \<noteq> CHR ''{''"
    using assms by (auto intro!: ne)
  show "(digit_char d = CHR ''0'') = (d = 0)"
  proof
    assume "digit_char d = CHR ''0''"
    then have "(of_char (digit_char d) :: nat) = of_char (CHR ''0'')" by simp
    with o show "d = 0" by simp
  qed (simp add: digit_char_0)
  show "\<not> is_ws (digit_char d)"
    using assms by (auto simp: is_ws_def intro!: ne)
qed

lemma digits_unfold:
  "n < 10 \<Longrightarrow> digits n = [digit_char n]"
  "\<not> n < 10 \<Longrightarrow> digits n = digits (n div 10) @ [digit_char (n mod 10)]"
  by (subst digits.simps, simp)+

lemma digits_not_Nil: "digits n \<noteq> []"
  by (cases "n < 10") (simp_all add: digits_unfold)

lemma parse_digits_digits:
  "parse_digits acc (digits n @ r) = parse_digits (acc * 10 ^ length (digits n) + n) r"
proof (induction n arbitrary: acc r rule: digits.induct)
  case (1 n)
  show ?case
  proof (cases "n < 10")
    case True
    then show ?thesis by (simp add: digits_unfold digit_char_facts)
  next
    case False
    then have d: "digits n = digits (n div 10) @ [digit_char (n mod 10)]"
      by (rule digits_unfold)
    have "parse_digits acc (digits n @ r) =
        parse_digits acc (digits (n div 10) @ (digit_char (n mod 10) # r))"
      by (simp add: d)
    also have "\<dots> = parse_digits (acc * 10 ^ length (digits (n div 10)) + n div 10)
        (digit_char (n mod 10) # r)"
      using False by (rule "1.IH")
    also have "\<dots> = parse_digits
        ((acc * 10 ^ length (digits (n div 10)) + n div 10) * 10 + n mod 10) r"
      by (simp add: digit_char_facts)
    also have "(acc * 10 ^ length (digits (n div 10)) + n div 10) * 10 + n mod 10 =
        acc * 10 ^ length (digits n) + n"
      by (simp add: d algebra_simps)
    finally show ?thesis .
  qed
qed

lemma hd_digits: "hd (digits n) = digit_char (n div 10 ^ (length (digits n) - 1))"
proof (induction n rule: digits.induct)
  case (1 n)
  show ?case
  proof (cases "n < 10")
    case True
    then show ?thesis by (simp add: digits_unfold)
  next
    case False
    then have d: "digits n = digits (n div 10) @ [digit_char (n mod 10)]"
      by (rule digits_unfold)
    from False "1.IH" have "hd (digits (n div 10)) =
        digit_char (n div 10 div 10 ^ (length (digits (n div 10)) - 1))" by simp
    moreover have "length (digits (n div 10)) \<noteq> 0" using digits_not_Nil by simp
    ultimately show ?thesis
      using digits_not_Nil [of "n div 10"]
      by (simp add: d div_mult2_eq [symmetric] power_Suc [symmetric]
          del: power_Suc)
  qed
qed

lemma digits_lead:
  "is_digit (hd (digits n))" "(hd (digits n) = CHR ''0'') = (n = 0)"
proof -
  have b: "n div 10 ^ (length (digits n) - 1) < 10 \<and>
      (n div 10 ^ (length (digits n) - 1) = 0 \<longleftrightarrow> n = 0)"
  proof (induction n rule: digits.induct)
    case (1 n)
    show ?case
    proof (cases "n < 10")
      case True
      then show ?thesis by (simp add: digits_unfold)
    next
      case False
      then have d: "digits n = digits (n div 10) @ [digit_char (n mod 10)]"
        by (rule digits_unfold)
      have l: "length (digits (n div 10)) \<noteq> 0" using digits_not_Nil by simp
      then have e: "10 ^ length (digits (n div 10)) =
          (10::nat) * 10 ^ (length (digits (n div 10)) - 1)"
        by (cases "length (digits (n div 10))") simp_all
      from False "1.IH" have
        "n div 10 div 10 ^ (length (digits (n div 10)) - 1) < 10 \<and>
         (n div 10 div 10 ^ (length (digits (n div 10)) - 1) = 0 \<longleftrightarrow> n div 10 = 0)"
        by simp
      with False show ?thesis
        by (simp add: d e div_mult2_eq)
    qed
  qed
  then show "is_digit (hd (digits n))" "(hd (digits n) = CHR ''0'') = (n = 0)"
    by (simp_all add: hd_digits digit_char_facts)
qed

lemma parse_digits_stop: "r = [] \<or> \<not> is_digit (hd r) \<Longrightarrow> parse_digits acc r = (acc, r)"
  by (cases r) auto

lemma parse_nat_digits:
  assumes "r = [] \<or> \<not> is_digit (hd r)"
  shows "parse_nat (digits n @ r) = Some (n, r)"
proof (cases "n = 0")
  case True
  with assms show ?thesis
    by (cases r) (auto simp: parse_nat_def digits_unfold digit_char_0 is_digit_def)
next
  case False
  obtain c cs where cs: "digits n = c # cs"
    using digits_not_Nil [of n] by (cases "digits n") auto
  with digits_lead [of n] False have c: "is_digit c" "c \<noteq> CHR ''0''" by auto
  have "parse_digits 0 (digits n @ r) = (n, r)"
    using assms by (simp add: parse_digits_digits parse_digits_stop)
  with cs c show ?thesis
    by (simp add: parse_nat_def)
qed

subsection \<open>Numbers\<close>

lemma parse_digits_append:
  "parse_digits acc b = (n, r0) \<Longrightarrow> r0 \<noteq> [] \<or> r = [] \<or> \<not> is_digit (hd r) \<Longrightarrow>
   parse_digits acc (b @ r) = (n, r0 @ r)"
proof (induction b arbitrary: acc)
  case Nil
  then show ?case by (cases r) auto
next
  case (Cons c b)
  then show ?case by (auto split: if_splits)
qed

lemma parse_nat_append:
  assumes "parse_nat b = Some (n, r0)" and "r0 \<noteq> [] \<or> r = [] \<or> \<not> is_digit (hd r)"
  shows "parse_nat (b @ r) = Some (n, r0 @ r)"
proof -
  from assms(1) obtain c b' where b: "b = c # b'" and c: "is_digit c"
    by (cases b) (auto simp: parse_nat_def split: if_splits)
  show ?thesis
  proof (cases "c = CHR ''0''")
    case True
    with assms b show ?thesis
      by (cases b'; cases r) (auto simp: parse_nat_def split: if_splits)
  next
    case False
    with assms(1) b c have "parse_digits 0 b = (n, r0)"
      by (simp add: parse_nat_def)
    from parse_digits_append [OF this assms(2)] False b c show ?thesis
      by (simp add: parse_nat_def)
  qed
qed

lemma dropWhile_digits_append:
  "r = [] \<or> \<not> is_digit (hd r) \<Longrightarrow>
   dropWhile is_digit (x @ r) = dropWhile is_digit x @ r"
proof (induction x)
  case Nil
  then show ?case by (cases r) auto
next
  case (Cons c x)
  then show ?case by simp
qed

lemma takeWhile_digits_append:
  "takeWhile is_digit x \<noteq> [] \<Longrightarrow> takeWhile is_digit (x @ r) \<noteq> []"
  by (cases x) (auto split: if_splits)

lemma number_endD:
  assumes "number_end r"
  shows "r = [] \<or> \<not> is_digit (hd r)"
    and "r = c # r' \<Longrightarrow> c \<noteq> CHR ''.'' \<and> c \<noteq> CHR ''e'' \<and> c \<noteq> CHR ''E''"
  using assms by (auto simp: number_end_def)

lemma parse_frac_append:
  assumes "parse_frac x = Some y" and "number_end r"
  shows "parse_frac (x @ r) = Some (y @ r)"
proof (cases x)
  case Nil
  with assms show ?thesis
    by (cases r) (auto simp: parse_frac_def dest: number_endD(2))
next
  case (Cons c x')
  with assms(1) dropWhile_digits_append [OF number_endD(1) [OF assms(2)], of x']
    takeWhile_digits_append [of x' r]
  show ?thesis
    by (auto simp: parse_frac_def split: if_splits)
qed

lemma parse_exp_append:
  assumes "parse_exp x = Some y" and "number_end r"
  shows "parse_exp (x @ r) = Some (y @ r)"
proof (cases x)
  case Nil
  with assms show ?thesis
    by (cases r) (auto simp: parse_exp_def dest: number_endD(2))
next
  case (Cons c x')
  note x = this
  show ?thesis
  proof (cases "c = CHR ''e'' \<or> c = CHR ''E''")
    case False
    with assms(1) x show ?thesis by (auto simp: parse_exp_def)
  next
    case True
    define x'' where "x'' = (case x' of [] \<Rightarrow> []
        | d # t \<Rightarrow> if d = CHR ''+'' \<or> d = CHR ''-'' then t else x')"
    from assms(1) x True have t: "takeWhile is_digit x'' \<noteq> []" and
      y: "y = dropWhile is_digit x''"
      by (auto simp: parse_exp_def x''_def Let_def split: if_splits)
    from t have "x' \<noteq> []" by (auto simp: x''_def)
    then have e: "(case x' @ r of [] \<Rightarrow> []
        | d # t \<Rightarrow> if d = CHR ''+'' \<or> d = CHR ''-'' then t else x' @ r) = x'' @ r"
      by (cases x') (auto simp: x''_def)
    show ?thesis
      using True x y takeWhile_digits_append [OF t, of r]
        dropWhile_digits_append [OF number_endD(1) [OF assms(2)], of x'']
      by (simp add: parse_exp_def e Let_def)
  qed
qed

lemma parse_nat_suffix: "parse_nat b = Some (n, r0) \<Longrightarrow> suffix r0 b"
proof -
  have d: "suffix (snd (parse_digits acc b)) b" for acc
    by (induction b arbitrary: acc) (auto simp: suffix_Cons)
  assume "parse_nat b = Some (n, r0)"
  then show ?thesis
    using d [of 0]
    by (cases b) (auto simp: parse_nat_def suffix_Cons split: if_splits list.splits)
qed

lemma parse_frac_suffix: "parse_frac x = Some y \<Longrightarrow> suffix y x"
  by (cases x) (auto simp: parse_frac_def suffix_Cons suffix_dropWhile split: if_splits)

lemma parse_exp_suffix: "parse_exp x = Some y \<Longrightarrow> suffix y x"
  by (cases x)
    (auto simp: parse_exp_def suffix_Cons suffix_dropWhile Let_def
      split: if_splits list.splits intro: suffix_dropWhile suffix_ConsI)

lemma parse_number_append:
  assumes "parse_number fo t = Some (v, y)" and "number_end r"
  shows "parse_number fo (t @ r) = Some (v, y @ r)"
proof -
  define neg where "neg = (t \<noteq> [] \<and> hd t = CHR ''-'')"
  define body where "body = (if neg then tl t else t)"
  from assms(1) obtain n r0 r1 r2 where
    n: "parse_nat body = Some (n, r0)" and f: "parse_frac r0 = Some r1"
    and e: "parse_exp r1 = Some r2"
    and v: "(v, y) = (if length r2 = length r0
        then (JInt (if neg then - int n else int n), r0)
        else (JFloat (fo (take (length t - length r2) t)), r2))"
    by (auto simp: parse_number_def neg_def body_def Let_def split: option.splits if_splits)
  from n have "body \<noteq> []" by (auto simp: parse_nat_def)
  then have t: "t \<noteq> []" by (auto simp: body_def split: if_splits)
  then have neg': "(t @ r \<noteq> [] \<and> hd (t @ r) = CHR ''-'') = neg"
    by (simp add: neg_def)
  have body': "(if neg then tl (t @ r) else t @ r) = body @ r"
    using t by (simp add: body_def)
  have n': "parse_nat (body @ r) = Some (n, r0 @ r)"
    using n number_endD(1) [OF assms(2)] by (intro parse_nat_append) auto
  have f': "parse_frac (r0 @ r) = Some (r1 @ r)"
    using f assms(2) by (rule parse_frac_append)
  have e': "parse_exp (r1 @ r) = Some (r2 @ r)"
    using e assms(2) by (rule parse_exp_append)
  have "suffix r2 r1" "suffix r1 r0" "suffix r0 body"
    using parse_exp_suffix [OF e] parse_frac_suffix [OF f] parse_nat_suffix [OF n] .
  then have "suffix r2 body" by (meson suffix_order.trans)
  moreover have "suffix body t" by (cases t) (auto simp: body_def suffix_Cons)
  ultimately have "length r2 \<le> length t"
    by (meson suffix_length_le suffix_order.trans)
  then have tk: "take (length (t @ r) - length (r2 @ r)) (t @ r) = take (length t - length r2) t"
    by simp
  have ln: "(length (r2 @ r) = length (r0 @ r)) = (length r2 = length r0)"
    by simp
  show ?thesis
    unfolding parse_number_def Let_def neg' body'
    using v by (simp add: n' f' e' tk ln del: length_append take_append split: if_splits)
qed

lemma number_end_frac: "number_end r \<Longrightarrow> parse_frac r = Some r"
  by (cases r) (auto simp: parse_frac_def dest: number_endD(2))

lemma number_end_exp: "number_end r \<Longrightarrow> parse_exp r = Some r"
  by (cases r) (auto simp: parse_exp_def dest: number_endD(2))

lemma parse_number_str_int:
  assumes "number_end r"
  shows "parse_number fo (str_int i @ r) = Some (JInt i, r)"
proof -
  have e: "number_end []" by (simp add: number_end_def)
  have "parse_number fo (str_int i) = Some (JInt i, [])"
  proof (cases "i < 0")
    case True
    then show ?thesis
      using parse_nat_digits [of "[]" "nat (- i)"]
      by (simp add: parse_number_def str_int_def number_end_frac [OF e] number_end_exp [OF e])
  next
    case False
    obtain c cs where cs: "digits (nat i) = c # cs"
      using digits_not_Nil [of "nat i"] by (cases "digits (nat i)") auto
    with digits_lead(1) [of "nat i"] have "c \<noteq> CHR ''-''"
      by (auto simp: is_digit_def)
    with False cs show ?thesis
      using parse_nat_digits [of "[]" "nat i"]
      by (simp add: parse_number_def str_int_def number_end_frac [OF e] number_end_exp [OF e])
  qed
  from parse_number_append [OF this assms] show ?thesis by simp
qed

lemma parse_number_float:
  assumes "float_text fo t" and "number_end r"
  shows "parse_number fo (t @ r) = Some (JFloat (FNum t), r)"
  using parse_number_append [OF assms(1) [unfolded float_text_def] assms(2)] by simp

lemma parse_number_start:
  assumes "parse_number fo t = Some (v, y)"
  shows "\<exists>c cs. t = c # cs \<and> (is_digit c \<or> c = CHR ''-'')"
proof -
  from assms obtain n r0 where
    "parse_nat (if t \<noteq> [] \<and> hd t = CHR ''-'' then tl t else t) = Some (n, r0)"
    by (auto simp: parse_number_def Let_def split: option.splits)
  then show ?thesis
    by (cases t) (auto simp: parse_nat_def split: if_splits)
qed

subsection \<open>Values\<close>

lemma delim_number_end: "delim r \<Longrightarrow> number_end r"
  by (auto simp: delim_def number_end_def is_digit_def)

lemma delim_simps: "delim []" "delim (CHR '','' # s)" "delim (nl k @ s)"
  by (simp_all add: delim_def nl_def)

lemma ws_nl: "\<forall>c\<in>set (nl k). is_ws c"
  by (simp add: nl_def is_ws_def)

lemma skip_ws_append: "\<forall>c\<in>set w. is_ws c \<Longrightarrow> skip_ws (w @ s) = skip_ws s"
  by (simp add: skip_ws_def dropWhile_append2)

lemma skip_ws_start: "\<not> is_ws c \<Longrightarrow> skip_ws (c # s) = c # s"
  by (simp add: skip_ws_def)

lemma parse_value_ws: "\<forall>c\<in>set w. is_ws c \<Longrightarrow> parse_value py fo n (w @ s) = parse_value py fo n s"
  by (cases n) (simp_all add: skip_ws_append)

lemma parse_elems_ws: "\<forall>c\<in>set w. is_ws c \<Longrightarrow> parse_elems py fo n acc (w @ s) = parse_elems py fo n acc s"
  by (cases n) (simp_all add: skip_ws_append)

lemma parse_members_ws:
  "\<forall>c\<in>set w. is_ws c \<Longrightarrow> parse_members py fo n acc (w @ s) = parse_members py fo n acc s"
  by (cases n) (simp_all add: skip_ws_append)

lemma is_digit_other:
  assumes "is_digit c \<or> c = CHR ''-''"
  shows "\<not> is_ws c" "c \<noteq> CHR '']''" "c \<noteq> CHR ''}''" "c \<noteq> CHR 0x22" "c \<noteq> CHR ''[''"
    "c \<noteq> CHR ''{''" "c \<noteq> CHR ''t''" "c \<noteq> CHR ''f''" "c \<noteq> CHR ''n''"
  using assms by (auto simp: is_digit_def is_ws_def)

lemma str_int_start: "\<exists>c cs. str_int i = c # cs \<and> (is_digit c \<or> c = CHR ''-'')"
proof (cases "i < 0")
  case True
  then show ?thesis by (simp add: str_int_def)
next
  case False
  obtain c cs where "digits (nat i) = c # cs"
    using digits_not_Nil [of "nat i"] by (cases "digits (nat i)") auto
  with digits_lead(1) [of "nat i"] False show ?thesis
    by (simp add: str_int_def)
qed

lemma float_json_start:
  assumes "wf_float fo f"
  shows "\<exists>c cs. float_json f = c # cs \<and>
    (is_digit c \<or> c = CHR ''-'' \<or> c = CHR ''N'' \<or> c = CHR ''I'')"
proof (cases f)
  case (FNum t)
  with assms have "parse_number fo t = Some (JFloat (FNum t), [])"
    by (simp add: float_text_def)
  from parse_number_start [OF this] FNum show ?thesis by auto
qed simp_all

lemma dumps_start:
  assumes "wf_json fo v"
  shows "\<exists>c cs. json_dumps_at k v = c # cs \<and> \<not> is_ws c \<and> c \<noteq> CHR '']'' \<and> c \<noteq> CHR ''}''"
proof (cases v)
  case (JInt i)
  from str_int_start [of i] obtain c cs where
    "str_int i = c # cs" "is_digit c \<or> c = CHR ''-''" by blast
  with JInt show ?thesis by (simp add: is_digit_other)
next
  case (JFloat f)
  with assms have "wf_float fo f" by simp
  from float_json_start [OF this] obtain c cs where
    "float_json f = c # cs" "is_digit c \<or> c = CHR ''-'' \<or> c = CHR ''N'' \<or> c = CHR ''I''"
    by blast
  with JFloat show ?thesis by (auto simp: is_digit_def is_ws_def)
qed (simp_all add: is_ws_def json_string_def)

lemma readsD:
  "reads py fo v \<Longrightarrow> cost v \<le> n \<Longrightarrow> delim r \<Longrightarrow> parse_value py fo n (json_dumps_at k v @ r) = Some (v, r)"
  by (simp add: reads_def)

lemma delim_more:
  "delim (concat (map (\<lambda>y. CHR '','' # f y) ys) @ nl k @ s)"
  by (cases ys) (simp_all add: delim_simps)

lemma join_map_Cons:
  "join sep (map f (x # ys)) = f x @ concat (map (\<lambda>y. sep @ f y) ys)"
  by (induction ys arbitrary: x) simp_all

lemma reads_elems:
  assumes "\<forall>y\<in>set ys. reads py fo y"
    and "Suc (sum_list (map (\<lambda>x. Suc (cost x)) ys)) \<le> n"
  shows "parse_elems py fo n acc
      (concat (map (\<lambda>y. CHR '','' # nl (Suc k) @ json_dumps_at (Suc k) y) ys) @
        nl k @ CHR '']'' # r) = Some (acc @ ys, r)"
  using assms
proof (induction ys arbitrary: n acc)
  case Nil
  then obtain m where n: "n = Suc m" by (cases n) auto
  show ?case
    by (simp add: n skip_ws_append [OF ws_nl] skip_ws_start is_ws_def)
next
  case (Cons y ys)
  from Cons.prems(2) obtain m where n: "n = Suc m" by (cases n) auto
  let ?rest = "concat (map (\<lambda>y. CHR '','' # nl (Suc k) @ json_dumps_at (Suc k) y) ys) @
        nl k @ CHR '']'' # r"
  from Cons.prems n have c: "cost y \<le> m" and
    s: "Suc (sum_list (map (\<lambda>x. Suc (cost x)) ys)) \<le> m" by simp_all
  have v: "parse_value py fo m (nl (Suc k) @ json_dumps_at (Suc k) y @ ?rest) = Some (y, ?rest)"
    using Cons.prems(1) c
    by (simp add: parse_value_ws [OF ws_nl] readsD delim_more)
  have e: "parse_elems py fo m (acc @ [y]) ?rest = Some ((acc @ [y]) @ ys, r)"
    using Cons.prems(1) s by (intro Cons.IH) simp_all
  show ?case
    using v e by (simp add: n skip_ws_start is_ws_def)
qed

lemma reads_members:
  assumes "\<forall>kv\<in>set (kv # kvs). reads py fo (snd kv)"
    and "sum_list (map (\<lambda>kv. Suc (cost (snd kv))) (kv # kvs)) \<le> n"
  shows "parse_members py fo n acc
      (nl (Suc k) @ member_text (Suc k) kv @
        concat (map (\<lambda>kv. CHR '','' # nl (Suc k) @ member_text (Suc k) kv) kvs) @
        nl k @ CHR ''}'' # r) =
      Some (fold (\<lambda>kv. AList.update (fst kv) (snd kv)) (kv # kvs) acc, r)"
  using assms
proof (induction kvs arbitrary: kv n acc)
  case Nil
  then obtain m where n: "n = Suc m" by (cases n) auto
  with Nil have c: "cost (snd kv) \<le> m" and rd: "reads py fo (snd kv)" by simp_all
  have j: "json_string (fst kv) = CHR 0x22 # tl (json_string (fst kv))"
    by (simp add: json_string_def)
  have v: "parse_value py fo m (CHR '' '' # json_dumps_at (Suc k) (snd kv) @ nl k @ CHR ''}'' # r) =
      Some (snd kv, nl k @ CHR ''}'' # r)"
    using parse_value_ws [of "[CHR '' '']" py fo m] readsD [OF rd c]
    by (simp add: is_ws_def delim_simps)
  have "parse_members py fo (Suc m) acc
      (nl (Suc k) @ (CHR 0x22 # tl (json_string (fst kv)) @
        CHR '':'' # CHR '' '' # json_dumps_at (Suc k) (snd kv) @ nl k @ CHR ''}'' # r)) =
      Some (AList.update (fst kv) (snd kv) acc, r)"
    using v
    by (simp add: parse_members_ws [OF ws_nl] skip_ws_start skip_ws_append [OF ws_nl]
        is_ws_def parse_json_string)
  then show ?case
    unfolding n member_text_def by (subst j) simp
next
  case (Cons kv' kvs)
  from Cons.prems(2) obtain m where n: "n = Suc m" by (cases n) auto
  with Cons.prems have c: "cost (snd kv) \<le> m" and rd: "reads py fo (snd kv)"
    and s: "sum_list (map (\<lambda>kv. Suc (cost (snd kv))) (kv' # kvs)) \<le> m" by simp_all
  let ?rest = "nl (Suc k) @ member_text (Suc k) kv' @
        concat (map (\<lambda>kv. CHR '','' # nl (Suc k) @ member_text (Suc k) kv) kvs) @
        nl k @ CHR ''}'' # r"
  have j: "json_string (fst kv) = CHR 0x22 # tl (json_string (fst kv))"
    by (simp add: json_string_def)
  have v: "parse_value py fo m (CHR '' '' # json_dumps_at (Suc k) (snd kv) @ CHR '','' # ?rest) =
      Some (snd kv, CHR '','' # ?rest)"
    using parse_value_ws [of "[CHR '' '']" py fo m] readsD [OF rd c]
    by (simp add: is_ws_def delim_simps)
  have e: "parse_members py fo m (AList.update (fst kv) (snd kv) acc) ?rest =
      Some (fold (\<lambda>kv. AList.update (fst kv) (snd kv)) (kv' # kvs)
        (AList.update (fst kv) (snd kv) acc), r)"
    using Cons.prems(1) s by (intro Cons.IH) simp_all
  have "parse_members py fo (Suc m) acc
      (nl (Suc k) @ (CHR 0x22 # tl (json_string (fst kv)) @
        CHR '':'' # CHR '' '' # json_dumps_at (Suc k) (snd kv) @ CHR '','' # ?rest)) =
      Some (fold (\<lambda>kv. AList.update (fst kv) (snd kv)) (kv' # kvs)
        (AList.update (fst kv) (snd kv) acc), r)"
    using v e
    by (simp add: parse_members_ws [OF ws_nl] skip_ws_start is_ws_def parse_json_string)
  then show ?case
    unfolding n member_text_def by (subst j) simp
qed

lemma update_fresh: "k \<notin> fst ` set acc \<Longrightarrow> AList.update k v acc = acc @ [(k, v)]"
  by (induction acc) auto

lemma fold_update_distinct:
  "distinct (map fst (acc @ kvs)) \<Longrightarrow>
    fold (\<lambda>kv. AList.update (fst kv) (snd kv)) kvs acc = acc @ kvs"
proof (induction kvs arbitrary: acc)
  case Nil
  show ?case by simp
next
  case (Cons kv kvs)
  from Cons.prems have f: "fst kv \<notin> fst ` set acc" by auto
  from Cons.prems have "distinct (map fst ((acc @ [kv]) @ kvs))" by simp
  then have "fold (\<lambda>kv. AList.update (fst kv) (snd kv)) kvs (acc @ [kv]) = (acc @ [kv]) @ kvs"
    by (rule Cons.IH)
  with f show ?case by (simp add: update_fresh)
qed

lemma reads_atom:
  "reads py fo JNull" "reads py fo (JBool b)" "reads py fo (JInt i)" "reads py fo (JStr s)"
proof -
  have suc: "\<exists>m. n = Suc m" if "Suc 0 \<le> n" for n
    using that by (cases n) auto
  show "reads py fo JNull"
    unfolding reads_def
    by (auto dest!: suc simp: skip_ws_start is_ws_def)
  show "reads py fo (JBool b)"
    unfolding reads_def
    by (auto dest!: suc simp: skip_ws_start is_ws_def)
  show "reads py fo (JStr s)"
    unfolding reads_def
  proof (intro allI impI)
    fix n k r
    assume "cost (JStr s) \<le> n"
    then obtain m where n: "n = Suc m" by (cases n) auto
    have j: "json_string s = CHR 0x22 # tl (json_string s)"
      by (simp add: json_string_def)
    have "parse_value py fo (Suc m) ((CHR 0x22 # tl (json_string s)) @ r) = Some (JStr s, r)"
      by (simp add: skip_ws_start is_ws_def parse_json_string)
    then show "parse_value py fo n (json_dumps_at k (JStr s) @ r) = Some (JStr s, r)"
      unfolding n json_dumps_at.simps by (subst j) simp
  qed
  show "reads py fo (JInt i)"
    unfolding reads_def
  proof (intro allI impI)
    fix n k r
    assume "cost (JInt i) \<le> n" and d: "delim r"
    then obtain m where n: "n = Suc m" by (cases n) auto
    from str_int_start [of i] obtain c cs where
      c: "str_int i = c # cs" "is_digit c \<or> c = CHR ''-''" by blast
    have "parse_number fo (c # cs @ r) = Some (JInt i, r)"
      using parse_number_str_int [OF delim_number_end [OF d], of fo i] by (simp add: c)
    then show "parse_value py fo n (json_dumps_at k (JInt i) @ r) = Some (JInt i, r)"
      using is_digit_other [OF c(2)]
      by (simp add: n c skip_ws_start)
  qed
qed

lemma reads_float:
  assumes "wf_float fo f" and "py \<or> (\<exists>t. f = FNum t)"
  shows "reads py fo (JFloat f)"
  unfolding reads_def
proof (intro allI impI)
  fix n k r
  assume "cost (JFloat f) \<le> n" and d: "delim r"
  then obtain m where n: "n = Suc m" by (cases n) auto
  show "parse_value py fo n (json_dumps_at k (JFloat f) @ r) = Some (JFloat f, r)"
  proof (cases f)
    case (FNum t)
    with assms(1) have ft: "float_text fo t" by simp
    then have "parse_number fo t = Some (JFloat (FNum t), [])"
      by (simp add: float_text_def)
    from parse_number_start [OF this] obtain c cs where
      c: "t = c # cs" "is_digit c \<or> c = CHR ''-''" by blast
    have "parse_number fo (c # cs @ r) = Some (JFloat (FNum t), r)"
      using parse_number_float [OF ft delim_number_end [OF d]] by (simp add: c)
    then show ?thesis
      using is_digit_other [OF c(2)]
      by (simp add: n FNum c(1) skip_ws_start)
  next
    case FNaN
    with assms(2) have py by simp
    then show ?thesis
      by (simp add: n FNaN skip_ws_start is_ws_def parse_number_def parse_nat_def
          is_digit_def parse_constant_def)
  next
    case FInf
    with assms(2) have py by simp
    then show ?thesis
      by (simp add: n FInf skip_ws_start is_ws_def parse_number_def parse_nat_def
          is_digit_def parse_constant_def)
  next
    case FNegInf
    with assms(2) have py by simp
    then show ?thesis
      by (simp add: n FNegInf skip_ws_start is_ws_def parse_number_def parse_nat_def
          is_digit_def parse_constant_def)
  qed
qed

lemma reads_all: "wf_json fo v \<Longrightarrow> py \<or> finite_json v \<Longrightarrow> reads py fo v"
proof (induction v)
  case (JArr xs)
  show ?case
  proof (cases xs)
    case Nil
    show ?thesis
      unfolding reads_def
    proof (intro allI impI)
      fix n k r
      assume "cost (JArr xs) \<le> n"
      then obtain m where n: "n = Suc m" by (cases n) auto
      show "parse_value py fo n (json_dumps_at k (JArr xs) @ r) = Some (JArr xs, r)"
        by (simp add: n Nil skip_ws_start is_ws_def)
    qed
  next
    case (Cons x ys)
    from JArr.prems Cons have wx: "wf_json fo x" by simp
    from JArr Cons have rx: "reads py fo x" and rys: "\<forall>y\<in>set ys. reads py fo y" by auto
    show ?thesis
      unfolding reads_def
    proof (intro allI impI)
      fix n k r
      assume cn: "cost (JArr xs) \<le> n"
      then obtain m where n: "n = Suc m" by (cases n) auto
      let ?rest = "concat (map (\<lambda>y. CHR '','' # nl (Suc k) @ json_dumps_at (Suc k) y) ys) @
        nl k @ CHR '']'' # r"
      from cn n Cons have c: "cost x \<le> m" and
        s: "Suc (sum_list (map (\<lambda>x. Suc (cost x)) ys)) \<le> m" by simp_all
      from dumps_start [OF wx, of "Suc k"] obtain c0 cs where
        c0: "json_dumps_at (Suc k) x = c0 # cs" "\<not> is_ws c0" "c0 \<noteq> CHR '']''" by blast
      have t: "json_dumps_at k (JArr xs) @ r =
          CHR ''['' # nl (Suc k) @ json_dumps_at (Suc k) x @ ?rest"
        unfolding Cons json_dumps_at.simps join_map_Cons by simp
      have sk: "skip_ws (nl (Suc k) @ json_dumps_at (Suc k) x @ ?rest) = c0 # cs @ ?rest"
        by (simp add: skip_ws_append [OF ws_nl] c0 skip_ws_start)
      have v: "parse_value py fo m (nl (Suc k) @ json_dumps_at (Suc k) x @ ?rest) = Some (x, ?rest)"
        using rx c by (simp add: parse_value_ws [OF ws_nl] readsD delim_more)
      have e: "parse_elems py fo m [x] ?rest = Some ([x] @ ys, r)"
        using rys s by (rule reads_elems)
      show "parse_value py fo n (json_dumps_at k (JArr xs) @ r) = Some (JArr xs, r)"
        unfolding t n
        by (simp add: skip_ws_start is_ws_def sk v e c0(3) Cons del: append.simps)
    qed
  qed
next
  case (JObj kvs)
  show ?case
  proof (cases kvs)
    case Nil
    show ?thesis
      unfolding reads_def
    proof (intro allI impI)
      fix n k r
      assume "cost (JObj kvs) \<le> n"
      then obtain m where n: "n = Suc m" by (cases n) auto
      show "parse_value py fo n (json_dumps_at k (JObj kvs) @ r) = Some (JObj kvs, r)"
        by (simp add: n Nil skip_ws_start is_ws_def)
    qed
  next
    case (Cons kv kvs')
    have rd: "\<forall>kv\<in>set (kv # kvs'). reads py fo (snd kv)"
    proof
      fix p assume p: "p \<in> set (kv # kvs')"
      then have "wf_json fo (snd p)" "py \<or> finite_json (snd p)"
        using JObj.prems Cons by auto
      moreover have "snd p \<in> Basic_BNFs.snds p" by (cases p) simp
      ultimately show "reads py fo (snd p)" using JObj.IH p Cons by blast
    qed
    from JObj.prems Cons have "distinct (map fst ([kv] @ kvs'))" by simp
    then have di: "fold (\<lambda>kv. AList.update (fst kv) (snd kv)) kvs' [kv] = kv # kvs'"
      using fold_update_distinct [of "[kv]" kvs'] by simp
    show ?thesis
      unfolding reads_def
    proof (intro allI impI)
      fix n k r
      assume cn: "cost (JObj kvs) \<le> n"
      then obtain m where n: "n = Suc m" by (cases n) auto
      let ?rest = "member_text (Suc k) kv @
        concat (map (\<lambda>kv. CHR '','' # nl (Suc k) @ member_text (Suc k) kv) kvs') @
        nl k @ CHR ''}'' # r"
      from cn n Cons have
        s: "sum_list (map (\<lambda>kv. Suc (cost (snd kv))) (kv # kvs')) \<le> m" by simp
      have t: "json_dumps_at k (JObj kvs) @ r = CHR ''{'' # nl (Suc k) @ ?rest"
        unfolding Cons json_dumps_at.simps join_map_Cons member_text_def by simp
      have sk: "skip_ws (nl (Suc k) @ ?rest) = CHR 0x22 # tl (json_string (fst kv)) @
          drop (length (json_string (fst kv))) ?rest"
        by (simp add: skip_ws_append [OF ws_nl] member_text_def json_string_def
            skip_ws_start is_ws_def)
      have e: "parse_members py fo m [] (nl (Suc k) @ ?rest) =
          Some (fold (\<lambda>kv. AList.update (fst kv) (snd kv)) (kv # kvs') [], r)"
        using rd s by (rule reads_members)
      show "parse_value py fo n (json_dumps_at k (JObj kvs) @ r) = Some (JObj kvs, r)"
        unfolding t n
        by (simp add: skip_ws_start is_ws_def sk e Cons di del: append.simps)
    qed
  qed
next
  case (JFloat f)
  then show ?case by (intro reads_float) auto
qed (simp_all add: reads_atom)

lemma cost_le_length: "wf_json fo v \<Longrightarrow> cost v \<le> length (json_dumps_at k v)"
proof (induction v arbitrary: k)
  case (JArr xs)
  have "sum_list (map (\<lambda>x. Suc (cost x)) xs) \<le>
      length (concat (map (\<lambda>y. CHR '','' # nl (Suc k) @ json_dumps_at (Suc k) y) xs))"
    using JArr
  proof (induction xs)
    case Nil
    show ?case by simp
  next
    case (Cons x xs)
    then show ?case by (simp add: add_mono le_SucI trans_le_add2)
  qed
  moreover have "length (json_dumps_at k (JArr xs)) =
      length (concat (map (\<lambda>y. CHR '','' # nl (Suc k) @ json_dumps_at (Suc k) y) xs)) +
      length (nl k) + 1" if "xs \<noteq> []"
  proof -
    from that obtain x ys where xs: "xs = x # ys" by (cases xs) auto
    have "json_dumps_at k (JArr xs) = CHR ''['' # nl (Suc k) @ json_dumps_at (Suc k) x @
        concat (map (\<lambda>y. CHR '','' # nl (Suc k) @ json_dumps_at (Suc k) y) ys) @
        nl k @ [CHR '']'']"
      unfolding xs json_dumps_at.simps join_map_Cons by simp
    then show ?thesis by (simp add: xs)
  qed
  ultimately show ?case
    by (cases "xs = []") (simp_all add: nl_def)
next
  case (JObj kvs)
  have "sum_list (map (\<lambda>kv. Suc (cost (snd kv))) kvs) \<le>
      length (concat (map (\<lambda>kv. CHR '','' # nl (Suc k) @ member_text (Suc k) kv) kvs))"
    using JObj
  proof (induction kvs)
    case Nil
    show ?case by simp
  next
    case (Cons kv kvs)
    have "cost (snd kv) \<le> length (json_dumps_at (Suc k) (snd kv))"
      using Cons.prems(1) [of kv "snd kv"] Cons.prems(2) by (cases kv) simp
    moreover have "sum_list (map (\<lambda>kv. Suc (cost (snd kv))) kvs) \<le>
      length (concat (map (\<lambda>kv. CHR '','' # nl (Suc k) @ member_text (Suc k) kv) kvs))"
      using Cons.prems by (intro Cons.IH) auto
    ultimately show ?case by (simp add: member_text_def)
  qed
  moreover have "length (json_dumps_at k (JObj kvs)) =
      length (concat (map (\<lambda>kv. CHR '','' # nl (Suc k) @ member_text (Suc k) kv) kvs)) +
      length (nl k) + 1" if "kvs \<noteq> []"
  proof -
    from that obtain kv ys where kvs: "kvs = kv # ys" by (cases kvs) auto
    have "json_dumps_at k (JObj kvs) = CHR ''{'' # nl (Suc k) @ member_text (Suc k) kv @
        concat (map (\<lambda>kv. CHR '','' # nl (Suc k) @ member_text (Suc k) kv) ys) @
        nl k @ [CHR ''}'']"
      unfolding kvs json_dumps_at.simps join_map_Cons member_text_def by simp
    then show ?thesis by (simp add: kvs)
  qed
  ultimately show ?case
    by (cases "kvs = []") (simp_all add: nl_def)
next
  case (JInt i)
  show ?case using str_int_start [of i] by auto
next
  case (JFloat f)
  then show ?case using float_json_start [of fo f] by auto
qed (simp_all add: json_string_def)

lemma json_roundtrip:
  assumes "wf_json fo v" and "py \<or> finite_json v"
  shows "json_read py fo (json_dumps v) = Some v"
  using readsD [OF reads_all [OF assms], of "Suc (length (json_dumps_at 0 v))" "[]" 0]
    cost_le_length [OF assms(1), of 0]
  by (simp add: json_read_def json_dumps_def delim_simps skip_ws_def)

section \<open>Timeline rows: the stream link\<close>




section \<open>Streaming cards: the primary call to action\<close>

lemma streaming_card_cta:
  assumes "streaming_card R (i, s) = Inr c"
  shows "\<exists>pre url cta. fmt R (subscript s ''url'') = Inr url \<and>
           fmt R (subscript s ''cta'') = Inr cta \<and>
           c = pre @ cta_anchor url (if i = 0 then ''streaming-card__cta--primary'' else []) cta"
proof -
  define fs where "fs = fstring"
  define ft where "ft = fstring"
  have split: "fstring L = bindE (fs (take 11 L)) (\<lambda>x. bindE (ft (drop 11 L)) (\<lambda>y. Inr (x @ y)))"
    for L unfolding fs_def ft_def by (rule fstring_split)
  show ?thesis
    using assms unfolding streaming_card_def
    apply (simp only: case_prod_conv Let_def)
    apply (elim bindE_InrE)
    apply (frule fstring_Inr_all [where m = "fmt R (subscript s ''url'')"])
     apply simp
    apply (frule fstring_Inr_all [where m = "fmt R (subscript s ''cta'')"])
     apply simp
    apply (elim exE)
    apply (simp only: split)
    apply (simp add: ft_def cta_anchor_def bindE_Inr_iff split del: if_split)
    apply blast
    done
qed

text \<open>
  C9.  When the streaming section renders, it is the cards of the platforms joined by
  newlines, one card per platform in order, and every card ends with its
  call-to-action anchor: the anchor of the first card (index 0) has the extra class
  \<^verbatim>\<open>streaming-card__cta--primary\<close>, the anchor of every later card has the empty
  extra class.
\<close>

theorem streaming_cta_primary:
  assumes "build_streaming_html R data ui = Inr html"
  shows "\<exists>platforms cards.
           bindE (subscript data ''streaming'') py_iter = Inr platforms \<and>
           html = join ''\<newline>'' cards \<and> length cards = length platforms \<and>
           (\<forall>i<length platforms. \<exists>pre url cta.
              fmt R (subscript (platforms ! i) ''url'') = Inr url \<and>
              fmt R (subscript (platforms ! i) ''cta'') = Inr cta \<and>
              cards ! i =
                pre @ cta_anchor url (if i = 0 then ''streaming-card__cta--primary'' else []) cta)"
proof -
  from assms obtain streaming platforms cards where
      s: "subscript data ''streaming'' = Inr streaming"
    and p: "py_iter streaming = Inr platforms"
    and c: "mapE (streaming_card R) (enumerate 0 platforms) = Inr cards"
    and h: "html = join ''\<newline>'' cards"
    unfolding build_streaming_html_def by (auto elim!: bindE_InrE)
  from c have len: "length cards = length platforms"
    and each: "\<forall>i<length platforms. streaming_card R (i, platforms ! i) = Inr (cards ! i)"
    by (simp_all add: mapE_Inr_iff nth_enumerate_eq)
  have "\<exists>pre url cta.
          fmt R (subscript (platforms ! i) ''url'') = Inr url \<and>
          fmt R (subscript (platforms ! i) ''cta'') = Inr cta \<and>
          cards ! i =
            pre @ cta_anchor url (if i = 0 then ''streaming-card__cta--primary'' else []) cta"
    if "i < length platforms" for i
    using each that by (intro streaming_card_cta) simp
  then have all: "\<forall>i<length platforms. \<exists>pre url cta.
          fmt R (subscript (platforms ! i) ''url'') = Inr url \<and>
          fmt R (subscript (platforms ! i) ''cta'') = Inr cta \<and>
          cards ! i =
            pre @ cta_anchor url (if i = 0 then ''streaming-card__cta--primary'' else []) cta"
    by blast
  from s p have "bindE (subscript data ''streaming'') py_iter = Inr platforms"
    by simp
  with h len all show ?thesis by blast
qed

theorem streaming_cta_primary_witness:
  "\<exists>html. build_streaming_html repr_example streaming_example ui_example = Inr html \<and>
     (\<exists>c0 c1 pre0 pre1. html = join ''\<newline>'' [c0, c1] \<and>
        c0 = pre0 @ cta_anchor ''https://example.org/cr'' ''streaming-card__cta--primary'' ''Watch'' \<and>
        c1 = pre1 @ cta_anchor ''https://example.org/nf'' [] ''Try'')"
proof -
  have "\<exists>html. build_streaming_html repr_example streaming_example ui_example = Inr html"
    by (simp add: build_streaming_html_def streaming_example_def streaming_card_def fmt_def
        enumerate_eq_zip upt_rec)
  then obtain html where
    html: "build_streaming_html repr_example streaming_example ui_example = Inr html" ..
  from streaming_cta_primary [OF html] obtain platforms cards where
      p: "bindE (subscript streaming_example ''streaming'') py_iter = Inr platforms"
    and h: "html = join ''\<newline>'' cards" and len: "length cards = length platforms"
    and each: "\<forall>i<length platforms. \<exists>pre url cta.
              fmt repr_example (subscript (platforms ! i) ''url'') = Inr url \<and>
              fmt repr_example (subscript (platforms ! i) ''cta'') = Inr cta \<and>
              cards ! i =
                pre @ cta_anchor url (if i = 0 then ''streaming-card__cta--primary'' else []) cta"
    by blast
  from p have platforms: "platforms =
        [JObj [(''icon'', JStr ''C''), (''platform'', JStr ''Crunchyroll''),
               (''available'', JArr [JStr ''Dragon Ball'', JStr ''Dragon Ball Z'']),
               (''url'', JStr ''https://example.org/cr''), (''cta'', JStr ''Watch'')],
         JObj [(''icon'', JStr ''N''), (''platform'', JStr ''Netflix''),
               (''available'', JArr []),
               (''url'', JStr ''https://example.org/nf''), (''cta'', JStr ''Try'')]]"
    by (simp add: streaming_example_def)
  from len platforms obtain c0 c1 where cards: "cards = [c0, c1]"
    by (cases cards; cases "tl cards"; cases "tl (tl cards)") auto
  from each [rule_format, of 0] each [rule_format, of 1] platforms cards
  have "\<exists>pre0. c0 = pre0 @ cta_anchor ''https://example.org/cr'' ''streaming-card__cta--primary'' ''Watch''"
    and "\<exists>pre1. c1 = pre1 @ cta_anchor ''https://example.org/nf'' [] ''Try''"
    by (simp_all add: fmt_def)
  with html h cards show ?thesis by blast
qed

section \<open>Sitemap: entries and alternate links\<close>











section \<open>Orchestrator: a missing data file\<close>

lemma bindA_simps [simp]:
  "m w = (Inl e, w') \<Longrightarrow> bindA m f w = (Inl e, w')"
  "m w = (Inr x, w') \<Longrightarrow> bindA m f w = f x w'"
  by (simp_all add: bindA_def)

lemma print_apply [simp]: "print s w = (Inr (), w\<lparr>out := out w @ [s]\<rparr>)"
  by (simp add: print_def)

lemma lift_apply [simp]: "lift m w = (m, w)"
  by (simp add: lift_def)

lemma bindA_print [simp]: "bindA (print s) f w = f () (w\<lparr>out := out w @ [s]\<rparr>)"
  by (simp add: bindA_def)

lemma bindA_lift: "bindA (lift m) f w = (case m of Inl e \<Rightarrow> (Inl e, w) | Inr x \<Rightarrow> f x w)"
  by (cases m) (simp_all add: bindA_def)

lemma not_isl_Inr: "\<not> isl m \<Longrightarrow> \<exists>x. m = Inr x"
  by (cases m) auto

lemma loadable_files: "files v = files w \<Longrightarrow> loadable loads v s = loadable loads w s"
  by (simp add: loadable_def)

lemma loadable_out [simp]: "loadable loads (w\<lparr>out := x\<rparr>) s = loadable loads w s"
  by (simp add: loadable_def)

lemma load_json_loadable:
  assumes "loadable loads w slug"
  shows "\<exists>raw en fr. load_json loads pt slug w = (Inr raw, w) \<and>
           subscript raw ''en'' = Inr en \<and> subscript raw ''fr'' = Inr fr"
proof -
  from assms obtain content raw where
      f: "files w (data_path slug) = Some (File content)" and u: "valid_utf8 content"
    and l: "loads (universal_newlines content) = Some raw"
    and e: "\<not> isl (subscript raw ''en'')" "\<not> isl (subscript raw ''fr'')"
    by (auto simp: loadable_def split: option.splits node.splits)
  from f u l have "load_json loads pt slug w = (Inr raw, w)"
    by (simp add: load_json_def data_path_def)
  with not_isl_Inr [OF e(1)] not_isl_Inr [OF e(2)] show ?thesis by blast
qed

lemma load_json_missing:
  "files w (data_path slug) = None \<Longrightarrow>
   load_json loads pt slug w =
     (Inl (SystemExit 1), w\<lparr>out := out w @ [missing_report pt slug]\<rparr>)"
  by (simp add: load_json_def data_path_def missing_report_def)

lemma subscript_errors: "subscript v k = Inl e \<Longrightarrow> e = TypeError \<or> e = KeyError k"
  by (cases v) (auto split: option.splits)

text \<open>A series whose data file is there and that does not load.\<close>

lemma load_json_unloadable:
  assumes "\<not> loadable loads w slug" and "files w (data_path slug) \<noteq> None"
  shows "(\<exists>e. load_json loads pt slug w = (Inl e, w) \<and> e \<in> load_errors) \<or>
         (\<exists>raw. load_json loads pt slug w = (Inr raw, w) \<and>
            ((\<exists>e. subscript raw ''en'' = Inl e \<and> e \<in> load_errors) \<or>
             (\<exists>en e. subscript raw ''en'' = Inr en \<and> subscript raw ''fr'' = Inl e \<and>
                e \<in> load_errors)))"
proof -
  from assms(2) obtain nd where f: "files w (data_path slug) = Some nd" by auto
  show ?thesis
  proof (cases nd)
    case Dir
    with f show ?thesis by (simp add: load_json_def data_path_def load_errors_def)
  next
    case (File content)
    note f = f [unfolded File]
    show ?thesis
    proof (cases "valid_utf8 content")
      case False
      with f show ?thesis by (simp add: load_json_def data_path_def load_errors_def)
    next
      case True
      note u = this
      show ?thesis
      proof (cases "loads (universal_newlines content)")
        case None
        with f u show ?thesis by (simp add: load_json_def data_path_def load_errors_def)
      next
        case (Some raw)
        with f u have l: "load_json loads pt slug w = (Inr raw, w)"
          by (simp add: load_json_def data_path_def)
        from assms(1) f u Some have
          "isl (subscript raw ''en'') \<or> isl (subscript raw ''fr'')"
          by (auto simp: loadable_def)
        then show ?thesis
        proof (cases "subscript raw ''en''")
          case (Inl e)
          with subscript_errors [OF Inl] l show ?thesis
            by (auto simp: load_errors_def)
        next
          case (Inr en)
          with \<open>isl (subscript raw ''en'') \<or> isl (subscript raw ''fr'')\<close>
          obtain e where e: "subscript raw ''fr'' = Inl e"
            by (cases "subscript raw ''fr''") auto
          with subscript_errors [OF e] l Inr show ?thesis
            by (auto simp: load_errors_def)
        qed
      qed
    qed
  qed
qed

text \<open>The loading loop stops at the first series that does not load.\<close>

lemma load_all_first_failure:
  assumes "s \<in> set slugs" and "\<not> loadable loads w s"
    and "\<forall>x\<in>set (takeWhile (\<lambda>x. x \<noteq> s) slugs). loadable loads w x"
  shows "\<exists>e w'. load_all loads pt slugs w = (Inl e, w') \<and> files w' = files w \<and>
     (if files w (data_path s) = None
      then e = SystemExit 1 \<and>
           out w' = out w @ map loading_line (takeWhile (\<lambda>x. x \<noteq> s) slugs @ [s]) @
                    [missing_report pt s]
      else e \<in> load_errors \<and>
           out w' = out w @ map loading_line (takeWhile (\<lambda>x. x \<noteq> s) slugs @ [s]))"
  using assms
proof (induction slugs arbitrary: w)
  case Nil
  then show ?case by simp
next
  case (Cons slug slugs)
  let ?w1 = "w\<lparr>out := out w @ [''\<newline>[1/4] Loading data: '' @ slug]\<rparr>"
  have f1: "files ?w1 = files w" by simp
  show ?case
  proof (cases "slug = s")
    case True
    show ?thesis
    proof (cases "files w (data_path s) = None")
      case True
      with load_json_missing [of ?w1 s loads pt] \<open>slug = s\<close> show ?thesis
        by (simp add: loading_line_def)
    next
      case False
      from Cons.prems(2) have nl: "\<not> loadable loads ?w1 s"
        by simp
      from False have "files ?w1 (data_path s) \<noteq> None" by simp
      from load_json_unloadable [OF nl this, of pt] False \<open>slug = s\<close> show ?thesis
        by (auto simp: loading_line_def bindA_lift)
    qed
  next
    case False
    with Cons.prems have l: "loadable loads w slug" and s: "s \<in> set slugs"
      and r: "\<forall>x\<in>set (takeWhile (\<lambda>x. x \<noteq> s) slugs). loadable loads w x"
      by auto
    from l have "loadable loads ?w1 slug" by simp
    from load_json_loadable [OF this, of pt] obtain raw en fr where
      lj: "load_json loads pt slug ?w1 = (Inr raw, ?w1)"
      and en: "subscript raw ''en'' = Inr en" and fr: "subscript raw ''fr'' = Inr fr"
      by blast
    have "\<not> loadable loads ?w1 s" "\<forall>x\<in>set (takeWhile (\<lambda>x. x \<noteq> s) slugs). loadable loads ?w1 x"
      using Cons.prems(2) r by simp_all
    from Cons.IH [OF s this, of] obtain e w' where
      la: "load_all loads pt slugs ?w1 = (Inl e, w')" and fw: "files w' = files ?w1"
      and o: "if files ?w1 (data_path s) = None
        then e = SystemExit 1 \<and>
             out w' = out ?w1 @ map loading_line (takeWhile (\<lambda>x. x \<noteq> s) slugs @ [s]) @
                      [missing_report pt s]
        else e \<in> load_errors \<and>
             out w' = out ?w1 @ map loading_line (takeWhile (\<lambda>x. x \<noteq> s) slugs @ [s])"
      by blast
    have "load_all loads pt (slug # slugs) w = (Inl e, w')"
      using lj en fr la by (simp add: bindA_lift)
    with fw o False show ?thesis
      by (auto simp: loading_line_def split: if_splits)
  qed
qed

lemma first_failure:
  assumes "a \<in> set xs" and "\<not> P a"
  shows "\<exists>s. s \<in> set xs \<and> \<not> P s \<and> (\<forall>x\<in>set (takeWhile (\<lambda>x. x \<noteq> s) xs). P x) \<and>
           ((\<forall>x\<in>set (takeWhile (\<lambda>x. x \<noteq> a) xs). P x) \<longrightarrow> s = a)"
  using assms
proof (induction xs)
  case Nil
  then show ?case by simp
next
  case (Cons y xs)
  show ?case
  proof (cases "P y")
    case False
    then have "y \<in> set (y # xs) \<and> \<not> P y \<and> (\<forall>x\<in>set (takeWhile (\<lambda>x. x \<noteq> y) (y # xs)). P x) \<and>
           ((\<forall>x\<in>set (takeWhile (\<lambda>x. x \<noteq> a) (y # xs)). P x) \<longrightarrow> y = a)"
      by auto
    then show ?thesis by blast
  next
    case True
    with Cons.prems have "a \<in> set xs" by auto
    from Cons.IH [OF this Cons.prems(2)] obtain s where
      s: "s \<in> set xs" "\<not> P s" "\<forall>x\<in>set (takeWhile (\<lambda>x. x \<noteq> s) xs). P x"
        "(\<forall>x\<in>set (takeWhile (\<lambda>x. x \<noteq> a) xs). P x) \<longrightarrow> s = a"
      by blast
    from True s(2) Cons.prems(2) have "y \<noteq> s" "y \<noteq> a" by auto
    with s True have "s \<in> set (y # xs) \<and> \<not> P s \<and>
        (\<forall>x\<in>set (takeWhile (\<lambda>x. x \<noteq> s) (y # xs)). P x) \<and>
        ((\<forall>x\<in>set (takeWhile (\<lambda>x. x \<noteq> a) (y # xs)). P x) \<longrightarrow> s = a)"
      by auto
    then show ?thesis by blast
  qed
qed

lemma load_error_exit: "e \<in> load_errors \<Longrightarrow> 0 < exit_code (Inl e)"
  by (auto simp: load_errors_def)

text \<open>
  C3 (as the code has it).  When the data file of a configured slug is absent, the run
  ends with an error whose exit status is not zero, and the file system is what it
  was: nothing is written, since every series is loaded before the first page is
  rendered.  The run stops at the first configured series \<open>s\<close> that does not load,
  which is the slug itself when every series configured before it loads.  When the
  data file of \<open>s\<close> is absent, its path is reported after the loading lines and the
  run ends by \<^verbatim>\<open>sys.exit(1)\<close>.  When \<open>s\<close> fails in another way (its data file is a
  directory, is no UTF-8 text, is no JSON, or lacks a language), the run ends with
  that error right after the loading line of \<open>s\<close>, and no path is reported.
\<close>

theorem missing_data_file:
  assumes "slug \<in> set SERIES" and "files w (data_path slug) = None"
  shows "\<exists>e w' s. main R loads pt w = (Inl e, w') \<and> 0 < exit_code (Inl e) \<and>
           files w' = files w \<and>
           s \<in> set SERIES \<and> \<not> loadable loads w s \<and>
           (\<forall>x\<in>set (takeWhile (\<lambda>x. x \<noteq> s) SERIES). loadable loads w x) \<and>
           ((\<forall>x\<in>set (takeWhile (\<lambda>x. x \<noteq> slug) SERIES). loadable loads w x) \<longrightarrow> s = slug) \<and>
           (if files w (data_path s) = None
            then e = SystemExit 1 \<and>
                 out w' = out w @ banner @
                   map loading_line (takeWhile (\<lambda>x. x \<noteq> s) SERIES @ [s]) @
                   [missing_report pt s]
            else e \<in> load_errors \<and>
                 out w' = out w @ banner @
                   map loading_line (takeWhile (\<lambda>x. x \<noteq> s) SERIES @ [s]))"
proof -
  define w0 where "w0 = w\<lparr>out := out w @ banner\<rparr>"
  have f0: "files w0 = files w" by (simp add: w0_def)
  have m: "main R loads pt w = (Inl e, w')" if "load_all loads pt SERIES w0 = (Inl e, w')" for e w'
    using that by (simp add: main_def w0_def banner_def)
  from assms(2) have "\<not> loadable loads w slug" by (simp add: loadable_def)
  from first_failure [of slug SERIES "loadable loads w", OF assms(1) this] obtain s where
    s: "s \<in> set SERIES" "\<not> loadable loads w s"
      "\<forall>x\<in>set (takeWhile (\<lambda>x. x \<noteq> s) SERIES). loadable loads w x"
      "(\<forall>x\<in>set (takeWhile (\<lambda>x. x \<noteq> slug) SERIES). loadable loads w x) \<longrightarrow> s = slug"
    by blast
  have "\<not> loadable loads w0 s" "\<forall>x\<in>set (takeWhile (\<lambda>x. x \<noteq> s) SERIES). loadable loads w0 x"
    using s(2,3) by (simp_all add: loadable_files [OF f0])
  from load_all_first_failure [OF s(1) this, of pt] obtain e w' where
    l: "load_all loads pt SERIES w0 = (Inl e, w')" and fw: "files w' = files w0"
    and o: "if files w0 (data_path s) = None
      then e = SystemExit 1 \<and>
           out w' = out w0 @ map loading_line (takeWhile (\<lambda>x. x \<noteq> s) SERIES @ [s]) @
                    [missing_report pt s]
      else e \<in> load_errors \<and>
           out w' = out w0 @ map loading_line (takeWhile (\<lambda>x. x \<noteq> s) SERIES @ [s])"
    by blast
  have ex: "0 < exit_code (Inl e)"
    using o load_error_exit [of e] by (auto split: if_splits)
  from o have o': "if files w (data_path s) = None
      then e = SystemExit 1 \<and>
           out w' = out w @ banner @ map loading_line (takeWhile (\<lambda>x. x \<noteq> s) SERIES @ [s]) @
                    [missing_report pt s]
      else e \<in> load_errors \<and>
           out w' = out w @ banner @ map loading_line (takeWhile (\<lambda>x. x \<noteq> s) SERIES @ [s])"
    by (simp add: w0_def)
  from m [OF l] ex fw f0 s o' show ?thesis by auto
qed

lemma both_languages_text:
  "valid_utf8 both_languages" "universal_newlines both_languages = both_languages"
  by code_simp+

text \<open>
  The runs over the first two file systems: in the first the missing path of
  \<^verbatim>\<open>naruto\<close> is reported and the status is 1; in the second the run ends at
  \<^verbatim>\<open>dragon-ball\<close> and reports no path.
\<close>

theorem missing_data_file_witness:
  "(\<forall>fo. \<exists>w'. main repr_example (json_loads fo) (join ''/'') world_missing =
        (Inl (SystemExit 1), w') \<and>
      files w' = files world_missing \<and>
      out w' = banner @ [loading_line ''dragon-ball'', loading_line ''naruto'',
        ''  [ERROR] Data file not found: data/naruto.json'']) \<and>
   (\<forall>fo. \<exists>w'. main repr_example (json_loads fo) (join ''/'') world_directory =
        (Inl IsADirectoryError, w') \<and>
      files w' = files world_directory \<and>
      out w' = banner @ [loading_line ''dragon-ball''])"
proof (intro conjI allI)
  fix fo
  have l: "json_loads fo both_languages = Some (JObj [(''en'', JObj []), (''fr'', JObj [])])"
    unfolding both_languages_def json_loads_def by (rule json_roundtrip) simp_all
  have a: "''naruto'' \<in> set SERIES" by (simp add: SERIES_def)
  have b: "files world_missing (data_path ''naruto'') = None"
    by (simp add: world_missing_def data_path_def)
  have c: "loadable (json_loads fo) world_missing ''dragon-ball''"
    by (simp add: loadable_def world_missing_def data_path_def both_languages_text l)
  from missing_data_file [OF a b, of repr_example "json_loads fo" "join ''/''"] c b
  show "\<exists>w'. main repr_example (json_loads fo) (join ''/'') world_missing =
        (Inl (SystemExit 1), w') \<and>
      files w' = files world_missing \<and>
      out w' = banner @ [loading_line ''dragon-ball'', loading_line ''naruto'',
        ''  [ERROR] Data file not found: data/naruto.json'']"
    by (auto simp: SERIES_def missing_report_def data_path_def world_missing_def
        split: if_splits)
next
  fix fo
  have a: "''naruto'' \<in> set SERIES" by (simp add: SERIES_def)
  have b: "files world_directory (data_path ''naruto'') = None"
    by (simp add: world_directory_def data_path_def)
  have c: "\<not> loadable (json_loads fo) world_directory ''dragon-ball''"
    by (simp add: loadable_def world_directory_def data_path_def)
  have d: "files world_directory (data_path ''dragon-ball'') = Some Dir"
    by (simp add: world_directory_def data_path_def)
  from missing_data_file [OF a b, of repr_example "json_loads fo" "join ''/''"] c d
  obtain e w' s where
    m: "main repr_example (json_loads fo) (join ''/'') world_directory = (Inl e, w')"
    and f: "files w' = files world_directory"
    and s: "s \<in> set SERIES" "\<not> loadable (json_loads fo) world_directory s"
      "\<forall>x\<in>set (takeWhile (\<lambda>x. x \<noteq> s) SERIES). loadable (json_loads fo) world_directory x"
    and o: "if files world_directory (data_path s) = None
            then e = SystemExit 1 \<and>
                 out w' = out world_directory @ banner @
                   map loading_line (takeWhile (\<lambda>x. x \<noteq> s) SERIES @ [s]) @
                   [missing_report (join ''/'') s]
            else e \<in> load_errors \<and>
                 out w' = out world_directory @ banner @
                   map loading_line (takeWhile (\<lambda>x. x \<noteq> s) SERIES @ [s])"
    by blast
  from s c have s': "s = ''dragon-ball''"
    by (auto simp: SERIES_def split: if_splits)
  have e: "e = IsADirectoryError"
    using m by (simp add: main_def world_directory_def data_path_def SERIES_def load_json_def)
  from m f o d show "\<exists>w'. main repr_example (json_loads fo) (join ''/'') world_directory =
        (Inl IsADirectoryError, w') \<and>
      files w' = files world_directory \<and>
      out w' = banner @ [loading_line ''dragon-ball'']"
    by (simp add: s' e SERIES_def world_directory_def)
qed

text \<open>
  The run over the third file system ends with the error of the parser at the first
  series: the data file of the second series is absent and its path is never reported.
\<close>

theorem missing_data_file_counterexample:
  "\<forall>fo. ''naruto'' \<in> set SERIES \<and>
     files world_broken (data_path ''naruto'') = None \<and>
     fst (main repr_example (json_loads fo) (join ''/'') world_broken) = Inl JSONDecodeError \<and>
     out (snd (main repr_example (json_loads fo) (join ''/'') world_broken)) =
       banner @ [loading_line ''dragon-ball'']"
proof
  fix fo
  have l: "json_loads fo ''{'' = None"
    by (simp add: json_loads_def json_read_def skip_ws_def is_ws_def)
  have u: "valid_utf8 ''{''" by (simp add: byte_in_def)
  show "''naruto'' \<in> set SERIES \<and>
     files world_broken (data_path ''naruto'') = None \<and>
     fst (main repr_example (json_loads fo) (join ''/'') world_broken) = Inl JSONDecodeError \<and>
     out (snd (main repr_example (json_loads fo) (join ''/'') world_broken)) =
       banner @ [loading_line ''dragon-ball'']"
    by (simp add: SERIES_def world_broken_def data_path_def main_def bindA_def
        load_json_def l byte_in_def banner_def loading_line_def)
qed

section \<open>Structured data\<close>




lemma readable_JStr [simp]: "readable py fo (JStr s)"
  by (simp add: readable_def)

lemma readable_JArr [simp]: "readable py fo (JArr xs) = (\<forall>x\<in>set xs. readable py fo x)"
  by (auto simp: readable_def)

lemma readable_JObj [simp]:
  "readable py fo (JObj kvs) =
     (distinct (map fst kvs) \<and> (\<forall>kv\<in>set kvs. readable py fo (snd kv)))"
  by (auto simp: readable_def)














end
